theory Spec2Isabelle
  imports Main "HOL-Library.Word"
begin

unbundle bit_operations_syntax

section \<open>The sign-xpi handler: data\<close>

text \<open>
  The program is \<^verbatim>\<open>src/apex/functions/sign-xpi/sign_xpi.py\<close>, a Python 2 request
  handler. Python 2 \<^verbatim>\<open>str\<close> values that hold text are modelled as \<open>string\<close>, file
  contents as lists of bytes. Every exception the handler can raise is a value of the
  type \<open>error\<close>; a function that can raise returns \<open>error + 'a\<close>.
\<close>

type_synonym byte = "8 word"
type_synonym bytes = "byte list"
type_synonym u32 = "32 word"

text \<open>The decoded JSON values the handler receives and sends.\<close>

datatype json =
    JNull
  | JBool bool
  | JNum int
  | JStr string
  | JArr "json list"
  | JObj "(string \<times> json) list"

text \<open>
  \<open>ValidationError\<close> is marshmallow's, with the paths of the fields it names;
  \<open>HTTPError\<close> is what \<^verbatim>\<open>raise_for_status\<close> raises, with the status;
  \<open>ChecksumMatchError\<close> is the handler's own (lines 28-35), with its three attributes
  \<^verbatim>\<open>url\<close>, \<^verbatim>\<open>expected_checksum\<close>, \<^verbatim>\<open>actual_checksum\<close>. The others are Python's
  built-in exceptions; \<open>ExternalError\<close> is a failure reported by a collaborator
  (network, object store, archive library).

  Text is kept as its UTF-8 bytes: a character outside ASCII is a sequence of bytes
  from \<open>0x80\<close> up. The strings of a loaded schema are \<^verbatim>\<open>unicode\<close> objects in the program.
\<close>

datatype error =
    ValidationError "string list list"
  | HTTPError nat
  | ChecksumMatchError string string string
  | UnboundLocalError string
  | KeyError string
  | IndexError
  | ValueError
  | TypeError
  | UnicodeEncodeError
  | AttributeError
  | ExternalError string

section \<open>Python string operations used by the handler\<close>

definition py_whitespace :: "char list" where
  "py_whitespace = [CHR '' '', CHR 0x09, CHR 0x0A, CHR 0x0B, CHR 0x0C, CHR 0x0D]"

text \<open>\<^verbatim>\<open>s.strip(chars)\<close>: drop the characters of \<open>chars\<close> at both ends.\<close>

definition strip_chars :: "char list \<Rightarrow> string \<Rightarrow> string" where
  "strip_chars cs s =
     rev (dropWhile (\<lambda>c. c \<in> set cs) (rev (dropWhile (\<lambda>c. c \<in> set cs) s)))"

text \<open>\<^verbatim>\<open>s.strip()\<close>.\<close>

definition strip :: "string \<Rightarrow> string" where
  "strip s = strip_chars py_whitespace s"

text \<open>\<^verbatim>\<open>s.split(sep)\<close> for a one-character separator: never the empty list.\<close>

fun split_char :: "char \<Rightarrow> string \<Rightarrow> string list" where
  "split_char sep [] = [[]]"
| "split_char sep (c # cs) =
     (if c = sep then [] # split_char sep cs
      else (case split_char sep cs of
              w # ws \<Rightarrow> (c # w) # ws
            | [] \<Rightarrow> [[c]]))"

text \<open>\<^verbatim>\<open>s.split(sep, 1)\<close>: cut at the first separator, if there is one.\<close>

definition split_once :: "char \<Rightarrow> string \<Rightarrow> string list" where
  "split_once sep s =
     (if sep \<in> set s
      then [takeWhile (\<lambda>c. c \<noteq> sep) s, tl (dropWhile (\<lambda>c. c \<noteq> sep) s)]
      else [s])"

text \<open>\<^verbatim>\<open>s.rsplit(sep, 1)\<close>: cut at the last separator, if there is one.\<close>

definition rsplit_once :: "char \<Rightarrow> string \<Rightarrow> string list" where
  "rsplit_once sep s =
     (if sep \<in> set s
      then [rev (tl (dropWhile (\<lambda>c. c \<noteq> sep) (rev s))),
            rev (takeWhile (\<lambda>c. c \<noteq> sep) (rev s))]
      else [s])"

text \<open>
  \<^verbatim>\<open>s.replace(old, new)\<close> for a two-character \<open>old\<close>: occurrences are replaced from
  the left and do not overlap.
\<close>

fun replace_pair :: "char \<Rightarrow> char \<Rightarrow> string \<Rightarrow> string \<Rightarrow> string" where
  "replace_pair a b new (x # y # s) =
     (if x = a \<and> y = b then new @ replace_pair a b new s
      else x # replace_pair a b new (y # s))"
| "replace_pair a b new s = s"

text \<open>
  \<^verbatim>\<open>rfc822.unquote\<close> of the Python 2 standard library:
  \<^verbatim>\<open>
  if len(str) > 1:
      if str.startswith('"') and str.endswith('"'):
          return str[1:-1].replace('\\\\', '\\').replace('\\"', '"')
      if str.startswith('<') and str.endswith('>'):
          return str[1:-1]
  return str
  \<close>
\<close>

definition unquote :: "string \<Rightarrow> string" where
  "unquote s =
     (if length s > 1 then
        (if hd s = CHR 0x22 \<and> last s = CHR 0x22 then
           replace_pair CHR 0x5C CHR 0x22 [CHR 0x22]
             (replace_pair CHR 0x5C CHR 0x5C [CHR 0x5C] (butlast (tl s)))
         else if hd s = CHR ''<'' \<and> last s = CHR ''>'' then butlast (tl s)
         else s)
      else s)"

text \<open>\<^verbatim>\<open>s.rfind(c)\<close>: the index of the last \<open>c\<close>, or \<open>-1\<close>.\<close>

definition rfind :: "char \<Rightarrow> string \<Rightarrow> int" where
  "rfind c s =
     (if c \<in> set s
      then int (length s) - 1 - int (length (takeWhile (\<lambda>x. x \<noteq> c) (rev s)))
      else - 1)"

text \<open>
  \<^verbatim>\<open>os.path.splitext\<close> (posixpath): the extension starts at the last dot after the
  last slash, unless only dots precede it in the file name.
\<close>

definition splitext :: "string \<Rightarrow> string \<times> string" where
  "splitext p =
     (let sepIndex = rfind CHR ''/'' p;
          dotIndex = rfind CHR ''.'' p
      in if dotIndex > sepIndex
            \<and> list_ex (\<lambda>c. c \<noteq> CHR ''.'')
                 (take (nat (dotIndex - (sepIndex + 1))) (drop (nat (sepIndex + 1)) p))
         then (take (nat dotIndex) p, drop (nat dotIndex) p)
         else (p, []))"

text \<open>\<^verbatim>\<open>s.lower()\<close> on ASCII.\<close>

definition lower_char :: "char \<Rightarrow> char" where
  "lower_char c =
     (case map_of (zip ''ABCDEFGHIJKLMNOPQRSTUVWXYZ'' ''abcdefghijklmnopqrstuvwxyz'') c of
        Some d \<Rightarrow> d
      | None \<Rightarrow> c)"

definition lower :: "string \<Rightarrow> string" where
  "lower s = map lower_char s"

text \<open>Whether a text has ASCII characters only: no byte from \<open>0x80\<close> up.\<close>

definition is_ascii :: "string \<Rightarrow> bool" where
  "is_ascii s = list_all (\<lambda>c. \<not> digit7 c) s"

text \<open>Python's truth value of \<^verbatim>\<open>d.get(k)\<close> for a string-valued key.\<close>

definition truthy :: "string option \<Rightarrow> bool" where
  "truthy v = (case v of None \<Rightarrow> False | Some s \<Rightarrow> s \<noteq> [])"

section \<open>Validated shapes: the marshmallow schemas (lines 38-74)\<close>

text \<open>
  A loaded schema is a Python dict that holds the keys whose fields were present, so the
  records below have optional fields where the schema does not say \<^verbatim>\<open>required=True\<close>.
\<close>

record autograph_info =
  hawk_id :: string
  hawk_secret :: string
  server_url :: string
  key_id :: string

record sign_context =
  autograph :: autograph_info
  output_bucket :: string

record source_info =
  src_url :: "string option"
  src_bucket :: "string option"
  src_key :: "string option"

record sign_event =
  ev_source :: source_info
  ev_checksum :: "string option"

text \<open>
  A field yields the paths of its errors and, when it has one, its value. A field that
  is absent and not required yields neither; \<^verbatim>\<open>null\<close> is an error (no field here has
  \<^verbatim>\<open>allow_none\<close>); \<^verbatim>\<open>fields.String\<close> accepts strings only.
\<close>

definition String_field :: "bool \<Rightarrow> string \<Rightarrow> json option \<Rightarrow> string list list \<times> string option" where
  "String_field required name raw =
     (case raw of
        None \<Rightarrow> (if required then [[name]] else [], None)
      | Some (JStr s) \<Rightarrow> ([], Some s)
      | Some _ \<Rightarrow> ([[name]], None))"

text \<open>
  \<^verbatim>\<open>fields.URL\<close> is a string field followed by marshmallow's URL validator, which
  rejects the empty string and then matches a regular expression. The regular
  expression belongs to the library and is the parameter \<open>url_regex\<close>.
\<close>

definition URL_field :: "(string \<Rightarrow> bool) \<Rightarrow> bool \<Rightarrow> string \<Rightarrow> json option \<Rightarrow> string list list \<times> string option" where
  "URL_field url_regex required name raw =
     (case String_field required name raw of
        (errs, Some s) \<Rightarrow> (if s \<noteq> [] \<and> url_regex s then (errs, Some s) else ([[name]], None))
      | r \<Rightarrow> r)"

text \<open>
  A field declared with \<^verbatim>\<open>load_from\<close> is read under its attribute name and, when that
  key is absent, under the \<^verbatim>\<open>load_from\<close> name; its errors are reported under the name
  it was read under.
\<close>

definition String_field_load_from :: "bool \<Rightarrow> string \<Rightarrow> string \<Rightarrow> (string \<times> json) list \<Rightarrow> string list list \<times> string option" where
  "String_field_load_from required attr_name load_from d =
     (case map_of d attr_name of
        Some v \<Rightarrow> String_field required attr_name (Some v)
      | None \<Rightarrow> String_field required load_from (map_of d load_from))"

text \<open>The schema validator of \<^verbatim>\<open>SourceInfo\<close> (lines 59-69), on the loaded fields.\<close>

definition verify_either_url_or_s3_info :: "source_info \<Rightarrow> string list list" where
  "verify_either_url_or_s3_info data =
     (if truthy (src_url data) then []
      else if truthy (src_bucket data) \<and> truthy (src_key data) then []
      else [[''url''], [''bucket''], [''key'']])"

text \<open>
  \<^verbatim>\<open>SourceInfo\<close> (lines 49-69). For a source that is not an object the outcome depends
  on the release of marshmallow 2, which the repository does not pin: up to 2.19 the
  load reports an error of the schema, as here; releases 2.20 and 2.21 also run the
  schema validator, on \<^verbatim>\<open>None\<close>, and line 61 raises \<open>AttributeError\<close>. No theorem below
  speaks of such a source.
\<close>

definition load_SourceInfo :: "(string \<Rightarrow> bool) \<Rightarrow> json \<Rightarrow> string list list \<times> source_info option" where
  "load_SourceInfo url_regex v =
     (case v of
        JObj d \<Rightarrow>
          (let (e1, u) = URL_field url_regex False ''url'' (map_of d ''url'');
               (e2, b) = String_field False ''bucket'' (map_of d ''bucket'');
               (e3, k) = String_field False ''key'' (map_of d ''key'');
               data = \<lparr>src_url = u, src_bucket = b, src_key = k\<rparr>;
               errs = e1 @ e2 @ e3 @ verify_either_url_or_s3_info data
           in (errs, if errs = [] then Some data else None))
      | _ \<Rightarrow> ([[''_schema'']], None))"

text \<open>
  \<^verbatim>\<open>fields.Nested(schema, required=True)\<close>: the errors of the nested schema are
  reported under the name of the field. When the field is absent, the error names the
  required fields of the nested schema (\<open>required_fields\<close>, by their \<^verbatim>\<open>load_from\<close>
  names), or the field itself when the nested schema requires none.
\<close>

definition Nested_field :: "(json \<Rightarrow> string list list \<times> 'a option) \<Rightarrow> string list \<Rightarrow> string \<Rightarrow> json option \<Rightarrow> string list list \<times> 'a option" where
  "Nested_field load_schema required_fields name raw =
     (case raw of
        None \<Rightarrow> (if required_fields = [] then [[name]]
                 else map (\<lambda>f. [name, f]) required_fields, None)
      | Some JNull \<Rightarrow> ([[name]], None)
      | Some v \<Rightarrow> (case load_schema v of (errs, r) \<Rightarrow> (map (\<lambda>p. name # p) errs, r)))"

text \<open>\<^verbatim>\<open>SignEvent(strict=True).load(event).data\<close> (lines 72-74, 82).\<close>

definition load_SignEvent :: "(string \<Rightarrow> bool) \<Rightarrow> json \<Rightarrow> error + sign_event" where
  "load_SignEvent url_regex event =
     (case event of
        JObj d \<Rightarrow>
          (let (e1, s) = Nested_field (load_SourceInfo url_regex) [] ''source'' (map_of d ''source'');
               (e2, c) = String_field False ''checksum'' (map_of d ''checksum'')
           in (case s of
                 Some src \<Rightarrow>
                   (if e1 @ e2 = [] then Inr \<lparr>ev_source = src, ev_checksum = c\<rparr>
                    else Inl (ValidationError (e1 @ e2)))
               | None \<Rightarrow> Inl (ValidationError (e1 @ e2))))
      | _ \<Rightarrow> Inl (ValidationError [[''_schema'']]))"

definition load_AutographInfo :: "json \<Rightarrow> string list list \<times> autograph_info option" where
  "load_AutographInfo v =
     (case v of
        JObj d \<Rightarrow>
          (let (e1, i) = String_field_load_from True ''hawk_id'' ''hawkId'' d;
               (e2, s) = String_field_load_from True ''hawk_secret'' ''hawkSecret'' d;
               (e3, u) = String_field_load_from True ''server_url'' ''serverUrl'' d;
               (e4, k) = String_field_load_from True ''key_id'' ''keyId'' d
           in (case (i, s, u, k) of
                 (Some i', Some s', Some u', Some k') \<Rightarrow>
                   (e1 @ e2 @ e3 @ e4,
                    Some \<lparr>hawk_id = i', hawk_secret = s', server_url = u', key_id = k'\<rparr>)
               | _ \<Rightarrow> (e1 @ e2 @ e3 @ e4, None)))
      | _ \<Rightarrow> ([[''_schema'']], None))"

text \<open>\<^verbatim>\<open>Context(strict=True).load(context).data\<close> (lines 45-47, 83).\<close>

definition load_Context :: "json \<Rightarrow> error + sign_context" where
  "load_Context ctx =
     (case ctx of
        JObj d \<Rightarrow>
          (let (e1, a) = Nested_field load_AutographInfo
                           [''hawkId'', ''hawkSecret'', ''serverUrl'', ''keyId'']
                           ''autograph'' (map_of d ''autograph'');
               (e2, b) = String_field_load_from True ''output_bucket'' ''outputBucket'' d
           in (case (a, b) of
                 (Some a', Some b') \<Rightarrow>
                   (if e1 @ e2 = [] then Inr \<lparr>autograph = a', output_bucket = b'\<rparr>
                    else Inl (ValidationError (e1 @ e2)))
               | _ \<Rightarrow> Inl (ValidationError (e1 @ e2))))
      | _ \<Rightarrow> Inl (ValidationError [[''_schema'']]))"

section \<open>SHA-256 (\<^verbatim>\<open>hashlib.sha256\<close>)\<close>

text \<open>The functions of FIPS 180-4, section 4.1.2, on 32-bit words.\<close>

definition rotr :: "nat \<Rightarrow> u32 \<Rightarrow> u32" where
  "rotr n x = (drop_bit n x) OR (push_bit (32 - n) x)"
definition Ch :: "u32 \<Rightarrow> u32 \<Rightarrow> u32 \<Rightarrow> u32" where
  "Ch x y z = (x AND y) XOR (NOT x AND z)"
definition Maj :: "u32 \<Rightarrow> u32 \<Rightarrow> u32 \<Rightarrow> u32" where
  "Maj x y z = (x AND y) XOR (x AND z) XOR (y AND z)"
definition bsig0 :: "u32 \<Rightarrow> u32" where
  "bsig0 x = rotr 2 x XOR rotr 13 x XOR rotr 22 x"
definition bsig1 :: "u32 \<Rightarrow> u32" where
  "bsig1 x = rotr 6 x XOR rotr 11 x XOR rotr 25 x"
definition ssig0 :: "u32 \<Rightarrow> u32" where
  "ssig0 x = rotr 7 x XOR rotr 18 x XOR drop_bit 3 x"
definition ssig1 :: "u32 \<Rightarrow> u32" where
  "ssig1 x = rotr 17 x XOR rotr 19 x XOR drop_bit 10 x"

text \<open>The round constants and the initial hash value (sections 4.2.2 and 5.3.3), in decimal.\<close>

definition K256 :: "u32 list" where
  "K256 = [
   1116352408, 1899447441, 3049323471, 3921009573, 961987163, 1508970993, 2453635748, 2870763221,
   3624381080, 310598401, 607225278, 1426881987, 1925078388, 2162078206, 2614888103, 3248222580,
   3835390401, 4022224774, 264347078, 604807628, 770255983, 1249150122, 1555081692, 1996064986,
   2554220882, 2821834349, 2952996808, 3210313671, 3336571891, 3584528711, 113926993, 338241895,
   666307205, 773529912, 1294757372, 1396182291, 1695183700, 1986661051, 2177026350, 2456956037,
   2730485921, 2820302411, 3259730800, 3345764771, 3516065817, 3600352804, 4094571909, 275423344,
   430227734, 506948616, 659060556, 883997877, 958139571, 1322822218, 1537002063, 1747873779,
   1955562222, 2024104815, 2227730452, 2361852424, 2428436474, 2756734187, 3204031479, 3329325298]"

definition H256_init :: "u32 list" where
  "H256_init = [1779033703, 3144134277, 1013904242, 2773480762,
                1359893119, 2600822924, 528734635, 1541459225]"

text \<open>
  Padding (section 5.1.1): the byte \<open>0x80\<close>, zero bytes up to 56 modulo 64, and the
  length of the message in bits as a 64-bit big-endian number.
\<close>

definition be64 :: "64 word \<Rightarrow> byte list" where
  "be64 n = map (\<lambda>i. ucast (drop_bit (8 * i) n)) [7, 6, 5, 4, 3, 2, 1, 0]"

definition sha256_pad :: "byte list \<Rightarrow> byte list" where
  "sha256_pad m = m @ [0x80] @ replicate ((119 - length m mod 64) mod 64) 0
                    @ be64 (8 * of_nat (length m))"

text \<open>A block as sixteen big-endian words.\<close>

fun be_words :: "byte list \<Rightarrow> u32 list" where
  "be_words (a # b # c # d # rest) =
     (push_bit 24 (ucast a) OR push_bit 16 (ucast b) OR push_bit 8 (ucast c) OR ucast d) # be_words rest"
| "be_words _ = []"

text \<open>
  The message schedule (section 6.2.2, step 1), built newest word first: \<open>schedule n rw\<close>
  adds \<open>n\<close> words to the reversed schedule \<open>rw\<close>.
\<close>

fun schedule :: "nat \<Rightarrow> u32 list \<Rightarrow> u32 list" where
  "schedule 0 rw = rw"
| "schedule (Suc n) rw =
     schedule n ((ssig1 (rw ! 1) + rw ! 6 + ssig0 (rw ! 14) + rw ! 15) # rw)"

text \<open>One round on the working variables \<open>a, ..., h\<close> (step 3), and one block (steps 1-4).\<close>

definition round256 :: "u32 \<times> u32 \<Rightarrow> u32 list \<Rightarrow> u32 list" where
  "round256 kw s = (case s of [a, b, c, d, e, f, g, h] \<Rightarrow>
     (let t1 = h + bsig1 e + Ch e f g + fst kw + snd kw;
          t2 = bsig0 a + Maj a b c
      in [t1 + t2, a, b, c, d + t1, e, f, g]) | _ \<Rightarrow> s)"

definition compress :: "u32 list \<Rightarrow> byte list \<Rightarrow> u32 list" where
  "compress hs block =
     (let w = rev (schedule 48 (rev (be_words block)))
      in map2 (+) hs (fold round256 (zip K256 w) hs))"

text \<open>The first \<open>n\<close> 64-byte blocks of a padded message.\<close>

fun blocks :: "nat \<Rightarrow> byte list \<Rightarrow> byte list list" where
  "blocks 0 bs = []"
| "blocks (Suc n) bs = take 64 bs # blocks n (drop 64 bs)"

text \<open>The digest: 32 bytes.\<close>

definition sha256 :: "byte list \<Rightarrow> byte list" where
  "sha256 m = (let p = sha256_pad m in
     concat (map (\<lambda>w. map (\<lambda>i. ucast (drop_bit (8 * i) w)) [3, 2, 1, 0])
       (fold (\<lambda>b hs. compress hs b) (blocks (length p div 64) p) H256_init)))"

text \<open>\<^verbatim>\<open>hexdigest()\<close>: two lowercase hexadecimal digits for each byte.\<close>

definition hexdigit :: "nat \<Rightarrow> char" where
  "hexdigit n = ''0123456789abcdef'' ! n"

definition hexlify :: "byte list \<Rightarrow> string" where
  "hexlify bs = concat (map (\<lambda>b. [hexdigit (unat b div 16), hexdigit (unat b mod 16)]) bs)"

definition sha256_hexdigest :: "byte list \<Rightarrow> string" where
  "sha256_hexdigest m = hexlify (sha256 m)"

section \<open>The collaborators and their calls\<close>

text \<open>
  What \<^verbatim>\<open>requests.get(url, stream=True)\<close> returns: the status, the headers, and the
  chunks that \<^verbatim>\<open>iter_content\<close> yields.
\<close>

record http_response =
  status_code :: nat
  headers :: "(string \<times> string) list"
  iter_content :: "bytes list"

text \<open>
  What \<^verbatim>\<open>requests.post\<close> returns: the status, and what \<^verbatim>\<open>resp.json()\<close> gives (it
  raises \<open>ValueError\<close> when the body is not JSON).
\<close>

record post_response =
  post_status :: nat
  post_json :: "error + json"

text \<open>
  Everything outside the handler is a field of the environment: the network
  (\<open>http_get\<close>, \<open>http_post\<close>), the object store (\<open>s3_download\<close>, \<open>s3_put\<close>), the
  archive library \<^verbatim>\<open>signing_clients.apps.JarExtractor\<close> (\<open>jar_signature\<close> is the
  \<^verbatim>\<open>signature\<close> attribute of an extractor built on a file, \<open>make_signed\<close> the contents
  of the file that \<^verbatim>\<open>make_signed\<close> writes), the name of the temporary file, the
  \<^verbatim>\<open>base64\<close> module, and the regular expression of marshmallow's URL validator.
\<close>

record env =
  url_regex :: "string \<Rightarrow> bool"
  http_get :: "string \<Rightarrow> error + http_response"
  s3_download :: "string \<Rightarrow> string \<Rightarrow> error + bytes"
  tmp_name :: string
  jar_signature :: "bytes \<Rightarrow> error + bytes"
  b64encode :: "bytes \<Rightarrow> string"
  b64decode :: "string \<Rightarrow> error + bytes"
  http_post :: "string \<Rightarrow> string \<times> string \<Rightarrow> json \<Rightarrow> error + post_response"
  make_signed :: "bytes \<Rightarrow> bytes \<Rightarrow> string \<Rightarrow> string \<Rightarrow> error + bytes"
  s3_put :: "string \<Rightarrow> string \<Rightarrow> bytes \<Rightarrow> error + unit"

text \<open>
  The calls the handler makes to its collaborators, in the order it makes them:
  \<open>HttpGet url\<close>, \<open>S3Download bucket key\<close>, \<open>JarExtract\<close> (building the extractor and
  reading its signature), \<open>HttpPost url auth json\<close> with the Hawk identifier and key,
  \<open>MakeSigned signature output_file sigpath\<close>, \<open>S3Put bucket key body\<close>.
\<close>

datatype effect =
    HttpGet string
  | S3Download string string
  | JarExtract
  | HttpPost string "string \<times> string" json
  | MakeSigned bytes string string
  | S3Put string string bytes

text \<open>The calls of the retrieval stage.\<close>

fun is_retrieval :: "effect \<Rightarrow> bool" where
  "is_retrieval (HttpGet _) = True"
| "is_retrieval (S3Download _ _) = True"
| "is_retrieval _ = False"

text \<open>
  A computation returns its result, or the exception it raised, together with the calls
  it made up to that point.
\<close>

type_synonym 'a io = "(error + 'a) \<times> effect list"

definition io_return :: "'a \<Rightarrow> 'a io" where
  "io_return x = (Inr x, [])"

definition io_raise :: "error \<Rightarrow> 'a io" where
  "io_raise e = (Inl e, [])"

definition io_lift :: "error + 'a \<Rightarrow> 'a io" where
  "io_lift r = (r, [])"

definition io_call :: "effect \<Rightarrow> error + 'a \<Rightarrow> 'a io" where
  "io_call eff r = (r, [eff])"

definition io_bind :: "'a io \<Rightarrow> ('a \<Rightarrow> 'b io) \<Rightarrow> 'b io" where
  "io_bind m f =
     (case m of
        (Inl e, t) \<Rightarrow> (Inl e, t)
      | (Inr x, t) \<Rightarrow> (case f x of (r, t') \<Rightarrow> (r, t @ t')))"

text \<open>\<^verbatim>\<open>raise_for_status\<close> of requests: an \<open>HTTPError\<close> for a status from 400 to 599.\<close>

definition raise_for_status :: "nat \<Rightarrow> error + unit" where
  "raise_for_status status = (if 400 \<le> status \<and> status < 600 then Inl (HTTPError status) else Inr ())"

text \<open>\<^verbatim>\<open>d[k]\<close> on a loaded schema: \<open>KeyError\<close> when the key is absent.\<close>

definition getitem :: "string option \<Rightarrow> string \<Rightarrow> error + string" where
  "getitem v k = (case v of None \<Rightarrow> Inl (KeyError k) | Some x \<Rightarrow> Inr x)"

text \<open>\<^verbatim>\<open>(_, filename) = xs\<close>: \<open>ValueError\<close> unless \<open>xs\<close> has two elements.\<close>

definition unpack_second :: "string list \<Rightarrow> error + string" where
  "unpack_second xs = (case xs of [_, filename] \<Rightarrow> Inr filename | _ \<Rightarrow> Inl ValueError)"

text \<open>\<^verbatim>\<open>response.headers.get(name)\<close>: the names of headers are compared without case.\<close>

definition headers_get :: "(string \<times> string) list \<Rightarrow> string \<Rightarrow> string option" where
  "headers_get hs name = map_of (map (\<lambda>(k, v). (lower k, v)) hs) (lower name)"

text \<open>\<^verbatim>\<open>x or y\<close> where \<open>x\<close> is a string or \<^verbatim>\<open>None\<close>.\<close>

definition py_or :: "string option \<Rightarrow> string \<Rightarrow> string" where
  "py_or x y = (case x of None \<Rightarrow> y | Some s \<Rightarrow> (if s = [] then y else s))"

section \<open>The handler (lines 77-198)\<close>

text \<open>The loop of \<^verbatim>\<open>extract_response_filename\<close> (lines 147-152).\<close>

fun find_filename :: "string list \<Rightarrow> error + string option" where
  "find_filename [] = Inr None"
| "find_filename (parameter # rest) =
     (case split_once CHR ''='' (strip parameter) of
        [name, v] \<Rightarrow> (if name = ''filename'' then Inr (Some (unquote v)) else find_filename rest)
      | _ \<Rightarrow> Inl ValueError)"

text \<open>\<^verbatim>\<open>extract_response_filename\<close> (lines 137-152).\<close>

definition extract_response_filename :: "http_response \<Rightarrow> error + string option" where
  "extract_response_filename response =
     (case headers_get (headers response) ''Content-Disposition'' of
        None \<Rightarrow> Inr None
      | Some content_disposition \<Rightarrow>
          (if content_disposition = [] then Inr None
           else (case split_char CHR '';'' content_disposition of
                   [] \<Rightarrow> Inl IndexError
                 | p0 # rest \<Rightarrow>
                     (if strip p0 \<noteq> ''attachment'' then Inr None else find_filename rest))))"

text \<open>\<^verbatim>\<open>compute_checksum\<close> (lines 155-159).\<close>

definition compute_checksum :: "bytes \<Rightarrow> string" where
  "compute_checksum contents = sha256_hexdigest contents"

text \<open>
  Lines 111-126 of \<^verbatim>\<open>retrieve_xpi\<close>: the contents written to the local file, the file
  name, and the local variable \<^verbatim>\<open>url\<close>, which only the first branch assigns.
\<close>

definition retrieve_source :: "env \<Rightarrow> sign_event \<Rightarrow> (string option \<times> bytes \<times> string) io" where
  "retrieve_source env event =
     (let source = ev_source event
      in if truthy (src_url source) then
           io_bind (io_lift (getitem (src_url source) ''url'')) (\<lambda>url.
           io_bind (io_call (HttpGet url) (http_get env url)) (\<lambda>response.
           io_bind (io_lift (raise_for_status (status_code response))) (\<lambda>_.
           io_bind (io_lift (unpack_second (rsplit_once CHR ''/'' (strip_chars ''/'' url)))) (\<lambda>filename.
           io_bind (io_lift (extract_response_filename response)) (\<lambda>header_filename.
           io_return (Some url,
                      fold (\<lambda>chunk localfile. localfile @ chunk) (iter_content response) [],
                      py_or header_filename filename))))))
         else
           io_bind (io_lift (getitem (src_bucket source) ''bucket'')) (\<lambda>bucket.
           io_bind (io_lift (getitem (src_key source) ''key'')) (\<lambda>key.
           io_bind (io_lift (unpack_second (rsplit_once CHR ''/'' key))) (\<lambda>filename.
           io_bind (io_call (S3Download bucket key) (s3_download env bucket key)) (\<lambda>contents.
           io_return (None, contents, filename))))))"

text \<open>
  \<^verbatim>\<open>ChecksumMatchError(url, expected_checksum, actual_checksum)\<close> (lines 28-35): what
  line 131 raises once it has its arguments. The constructor builds the message with
  \<^verbatim>\<open>format\<close> on a byte-string template. The URL and the checksum of the request are
  \<^verbatim>\<open>unicode\<close> objects, and under Python 2 formatting one that has a character outside
  ASCII raises \<open>UnicodeEncodeError\<close> inside the constructor; the digest is a byte string
  of hexadecimal digits.
\<close>

definition ChecksumMatchError_init :: "string \<Rightarrow> string \<Rightarrow> string \<Rightarrow> error" where
  "ChecksumMatchError_init url expected_checksum actual_checksum =
     (if is_ascii url \<and> is_ascii expected_checksum
      then ChecksumMatchError url expected_checksum actual_checksum
      else UnicodeEncodeError)"

text \<open>
  \<^verbatim>\<open>retrieve_xpi\<close> (lines 103-134). Line 131 reads the variable \<^verbatim>\<open>url\<close> before it
  builds the exception; where the variable was never assigned, reading it raises
  \<open>UnboundLocalError\<close>.
\<close>

definition retrieve_xpi :: "env \<Rightarrow> sign_event \<Rightarrow> (bytes \<times> string) io" where
  "retrieve_xpi env event =
     io_bind (retrieve_source env event) (\<lambda>(url, localfile, filename).
     let local_checksum = compute_checksum localfile
     in io_bind (io_lift (getitem (ev_checksum event) ''checksum'')) (\<lambda>checksum.
        if local_checksum \<noteq> checksum then
          (case url of
             None \<Rightarrow> io_raise (UnboundLocalError ''url'')
           | Some u \<Rightarrow> io_raise (ChecksumMatchError_init u checksum local_checksum))
        else io_return (localfile, filename)))"

text \<open>\<^verbatim>\<open>get_guid\<close> (lines 162-163).\<close>

definition get_guid :: "bytes \<Rightarrow> string" where
  "get_guid xpi_file = ''some-fake-guid@example.com''"

section \<open>\<^verbatim>\<open>urljoin\<close> (the \<^verbatim>\<open>urlparse\<close> module of Python 2.7)\<close>

definition scheme_chars :: "char list" where
  "scheme_chars = ''abcdefghijklmnopqrstuvwxyzABCDEFGHIJKLMNOPQRSTUVWXYZ0123456789+-.''"

definition uses_relative :: "string list" where
  "uses_relative = [''ftp'', ''http'', ''gopher'', ''nntp'', ''imap'', ''wais'', ''file'',
     ''https'', ''shttp'', ''mms'', ''prospero'', ''rtsp'', ''rtspu'', [], ''sftp'',
     ''svn'', ''svn+ssh'']"

definition uses_netloc :: "string list" where
  "uses_netloc = [''ftp'', ''http'', ''gopher'', ''nntp'', ''telnet'', ''imap'', ''wais'',
     ''file'', ''mms'', ''https'', ''shttp'', ''snews'', ''prospero'', ''rtsp'', ''rtspu'',
     ''rsync'', [], ''svn'', ''svn+ssh'', ''sftp'', ''nfs'', ''git'', ''git+ssh'']"

text \<open>\<^verbatim>\<open>s.find(c)\<close>: the index of the first \<open>c\<close>, or \<open>-1\<close>.\<close>

definition find_char :: "char \<Rightarrow> string \<Rightarrow> int" where
  "find_char c s = (if c \<in> set s then int (length (takeWhile (\<lambda>x. x \<noteq> c) s)) else - 1)"

text \<open>
  \<^verbatim>\<open>_splitnetloc(url, 2)\<close>: the authority runs from the third character to the first
  of \<^verbatim>\<open>/\<close>, \<^verbatim>\<open>?\<close>, \<^verbatim>\<open>#\<close>.
\<close>

definition splitnetloc :: "string \<Rightarrow> string \<times> string" where
  "splitnetloc url =
     (let domain = takeWhile (\<lambda>c. c \<notin> set ''/?#'') (drop 2 url)
      in (domain, drop (2 + length domain) url))"

text \<open>
  \<^verbatim>\<open>urlsplit(url, scheme)\<close>: scheme, authority, path, query and fragment. A scheme is
  recognised before the first colon when it is \<^verbatim>\<open>http\<close>, or when it is made of scheme
  characters and what follows the colon is not a port number. \<open>ValueError\<close> is the
  "Invalid IPv6 URL" of an authority with one square bracket of a pair.
\<close>

definition urlsplit :: "string \<Rightarrow> string \<Rightarrow> error + string \<times> string \<times> string \<times> string \<times> string" where
  "urlsplit url0 scheme0 =
     (let i = find_char CHR '':'' url0;
          pre = take (nat i) url0;
          rest = drop (nat i + 1) url0;
          (scheme, url1) =
            (if i > 0 \<and> (pre = ''http''
                  \<or> (list_all (\<lambda>c. c \<in> set scheme_chars) pre
                      \<and> (rest = [] \<or> list_ex (\<lambda>c. c \<notin> set ''0123456789'') rest)))
             then (lower pre, rest)
             else (scheme0, url0));
          (netloc, url2) = (if take 2 url1 = ''//'' then splitnetloc url1 else ([], url1))
      in if (CHR ''['' \<in> set netloc \<and> CHR '']'' \<notin> set netloc)
            \<or> (CHR '']'' \<in> set netloc \<and> CHR ''['' \<notin> set netloc)
         then Inl ValueError
         else
           (let (url3, fragment) =
                  (case split_once CHR ''#'' url2 of [u, f] \<Rightarrow> (u, f) | _ \<Rightarrow> (url2, []));
                (url4, query) =
                  (case split_once CHR ''?'' url3 of [u, q] \<Rightarrow> (u, q) | _ \<Rightarrow> (url3, []))
            in Inr (scheme, netloc, url4, query, fragment)))"

text \<open>\<^verbatim>\<open>urlunsplit\<close>.\<close>

definition urlunsplit :: "string \<times> string \<times> string \<times> string \<times> string \<Rightarrow> string" where
  "urlunsplit d =
     (case d of (scheme, netloc, url0, query, fragment) \<Rightarrow>
        (let url1 =
               (if netloc \<noteq> [] \<or> (scheme \<noteq> [] \<and> scheme \<in> set uses_netloc \<and> take 2 url0 \<noteq> ''//'')
                then ''//'' @ netloc @ (if url0 \<noteq> [] \<and> take 1 url0 \<noteq> ''/'' then ''/'' @ url0 else url0)
                else url0);
             url2 = (if scheme \<noteq> [] then scheme @ '':'' @ url1 else url1);
             url3 = (if query \<noteq> [] then url2 @ ''?'' @ query else url2)
         in (if fragment \<noteq> [] then url3 @ ''#'' @ fragment else url3)))"

text \<open>
  \<^verbatim>\<open>urljoin(base, '/sign/data')\<close>. The reference \<^verbatim>\<open>/sign/data\<close> has no scheme, no
  authority, no parameters, no query and no fragment, and its path starts with a slash,
  so \<^verbatim>\<open>urljoin\<close> parses it to the scheme of the base and that path, and returns at the
  test \<^verbatim>\<open>path[:1] == '/'\<close>, before it looks at the path of the base:
  \<^verbatim>\<open>
  if not base: return url
  bscheme, bnetloc, bpath, bparams, bquery, bfragment = urlparse(base, '', allow_fragments)
  scheme, netloc, path, params, query, fragment = urlparse(url, bscheme, allow_fragments)
  if scheme != bscheme or scheme not in uses_relative: return url
  if scheme in uses_netloc:
      if netloc: return urlunparse((scheme, netloc, path, params, query, fragment))
      netloc = bnetloc
  if path[:1] == '/': return urlunparse((scheme, netloc, path, params, query, fragment))
  \<close>
\<close>

definition urljoin_sign_data :: "string \<Rightarrow> error + string" where
  "urljoin_sign_data base =
     (if base = [] then Inr ''/sign/data''
      else (case urlsplit base [] of
              Inl e \<Rightarrow> Inl e
            | Inr (bscheme, bnetloc, bpath, bquery, bfragment) \<Rightarrow>
                (if bscheme \<notin> set uses_relative then Inr ''/sign/data''
                 else Inr (urlunsplit (bscheme,
                                       if bscheme \<in> set uses_netloc then bnetloc else [],
                                       ''/sign/data'', [], [])))))"

section \<open>Signing and publishing (lines 77-100, 166-198)\<close>

text \<open>\<^verbatim>\<open>resp.json()[0]\<close>.\<close>

definition json_first :: "json \<Rightarrow> error + json" where
  "json_first j =
     (case j of
        JArr [] \<Rightarrow> Inl IndexError
      | JArr (x # _) \<Rightarrow> Inr x
      | JStr [] \<Rightarrow> Inl IndexError
      | JStr (c # _) \<Rightarrow> Inr (JStr [c])
      | JObj _ \<Rightarrow> Inl (KeyError ''0'')
      | _ \<Rightarrow> Inl TypeError)"

text \<open>\<^verbatim>\<open>x['signature']\<close>.\<close>

definition json_getitem :: "json \<Rightarrow> string \<Rightarrow> error + json" where
  "json_getitem j k =
     (case j of
        JObj d \<Rightarrow> (case map_of d k of None \<Rightarrow> Inl (KeyError k) | Some v \<Rightarrow> Inr v)
      | _ \<Rightarrow> Inl TypeError)"

text \<open>\<^verbatim>\<open>base64.b64decode(x)\<close>: \<open>TypeError\<close> unless \<open>x\<close> is a string.\<close>

definition b64decode_json :: "env \<Rightarrow> json \<Rightarrow> error + bytes" where
  "b64decode_json env j = (case j of JStr s \<Rightarrow> b64decode env s | _ \<Rightarrow> Inl TypeError)"

text \<open>
  Lines 186-187 of \<^verbatim>\<open>sign_xpi\<close>: \<^verbatim>\<open>resp.raise_for_status()\<close>, then
  \<^verbatim>\<open>base64.b64decode(resp.json()[0]['signature'])\<close>.
\<close>

definition response_signature :: "env \<Rightarrow> post_response \<Rightarrow> error + bytes" where
  "response_signature env resp =
     (case raise_for_status (post_status resp) of
        Inl e \<Rightarrow> Inl e
      | Inr _ \<Rightarrow>
          (case post_json resp of
             Inl e \<Rightarrow> Inl e
           | Inr resp_json \<Rightarrow>
               (case json_first resp_json of
                  Inl e \<Rightarrow> Inl e
                | Inr first \<Rightarrow>
                    (case json_getitem first ''signature'' of
                       Inl e \<Rightarrow> Inl e
                     | Inr signature_b64 \<Rightarrow> b64decode_json env signature_b64))))"

text \<open>
  \<^verbatim>\<open>HawkAuth(id=..., key=...)\<close> of requests_hawk (line 173): the constructor raises
  \<open>AttributeError\<close> unless it is given both the identifier and the key, and an empty
  string counts as not given.
\<close>

definition HawkAuth :: "string \<Rightarrow> string \<Rightarrow> error + string \<times> string" where
  "HawkAuth ident key =
     (if ident \<noteq> [] \<and> key \<noteq> [] then Inr (ident, key) else Inl AttributeError)"

text \<open>The JSON body of the signing request (lines 177-185).\<close>

definition sign_request_body :: "string \<Rightarrow> string \<Rightarrow> string \<Rightarrow> json" where
  "sign_request_body b64_payload keyid guid =
     JArr [JObj [(''input'', JStr b64_payload),
                 (''keyid'', JStr keyid),
                 (''options'', JObj [(''id'', JStr guid)])]]"

text \<open>
  \<^verbatim>\<open>sign_xpi\<close> (lines 166-198). It returns the name of the signed file; the model
  returns with it the contents that \<^verbatim>\<open>make_signed\<close> wrote there, which \<^verbatim>\<open>handle\<close>
  reads back with \<^verbatim>\<open>file(signed_xpi)\<close>.
\<close>

definition sign_xpi :: "env \<Rightarrow> autograph_info \<Rightarrow> bytes \<Rightarrow> string \<Rightarrow> (string \<times> bytes) io" where
  "sign_xpi env autograph_info localfile guid =
     io_bind (io_call JarExtract (jar_signature env localfile)) (\<lambda>jar_extractor_signature.
     io_bind (io_lift (HawkAuth (hawk_id autograph_info) (hawk_secret autograph_info))) (\<lambda>auth.
     let b64_payload = b64encode env jar_extractor_signature
     in io_bind (io_lift (urljoin_sign_data (server_url autograph_info))) (\<lambda>url.
        let body = sign_request_body b64_payload (key_id autograph_info) guid
        in io_bind (io_call (HttpPost url auth body) (http_post env url auth body)) (\<lambda>resp.
           io_bind (io_lift (response_signature env resp)) (\<lambda>signature.
           let (localstem, localext) = splitext (tmp_name env);
               output_file = localstem @ ''-signed'' @ localext
           in io_bind (io_call (MakeSigned signature output_file ''mozilla.rsa'')
                         (make_signed env localfile signature output_file ''mozilla.rsa''))
                (\<lambda>signed_contents. io_return (output_file, signed_contents)))))))"

text \<open>The \<^verbatim>\<open>uploaded\<close> object of the result (lines 95-100).\<close>

record upload_result =
  up_bucket :: string
  up_key :: string

text \<open>\<^verbatim>\<open>upload\<close> (lines 91-100).\<close>

definition upload :: "env \<Rightarrow> sign_context \<Rightarrow> bytes \<Rightarrow> string \<Rightarrow> upload_result io" where
  "upload env ctx signed_xpi filename =
     (let bucket = output_bucket ctx
      in io_bind (io_call (S3Put bucket filename signed_xpi) (s3_put env bucket filename signed_xpi))
           (\<lambda>_. io_return \<lparr>up_bucket = bucket, up_key = filename\<rparr>))"

text \<open>\<^verbatim>\<open>handle\<close> (lines 77-88).\<close>

definition handle :: "env \<Rightarrow> json \<Rightarrow> json \<Rightarrow> upload_result io" where
  "handle env event ctx =
     io_bind (io_lift (load_SignEvent (url_regex env) event)) (\<lambda>event.
     io_bind (io_lift (load_Context ctx)) (\<lambda>ctx.
     io_bind (retrieve_xpi env event) (\<lambda>(localfile, filename).
     let guid = get_guid localfile
     in io_bind (sign_xpi env (autograph ctx) localfile guid) (\<lambda>(signed_xpi, signed_contents).
        upload env ctx signed_contents filename))))"

section \<open>Fixtures\<close>

text \<open>
  A package of three bytes, the test vector \<^verbatim>\<open>"abc"\<close> of FIPS 180-4, and its message
  schedule.
\<close>

definition abc :: bytes where
  "abc = [0x61, 0x62, 0x63]"

definition abc_schedule :: "u32 list" where
  "abc_schedule =
     [0x61626380, 0x00000000, 0x00000000, 0x00000000, 0x00000000, 0x00000000, 0x00000000,
      0x00000000, 0x00000000, 0x00000000, 0x00000000, 0x00000000, 0x00000000, 0x00000000,
      0x00000000, 0x00000018, 0x61626380, 0x000f0000, 0x7da86405, 0x600003c6, 0x3e9d7b78,
      0x0183fc00, 0x12dcbfdb, 0xe2e2c38e, 0xc8215c1a, 0xb73679a2, 0xe5bc3909, 0x32663c5b,
      0x9d209d67, 0xec8726cb, 0x702138a4, 0xd3b7973b, 0x93f5997f, 0x3b68ba73, 0xaff4ffc1,
      0xf10a5c62, 0x0a8b3996, 0x72af830a, 0x9409e33e, 0x24641522, 0x9f47bf94, 0xf0a64f5a,
      0x3e246a79, 0x27333ba3, 0x0c4763f2, 0x840abf27, 0x7a290d5d, 0x065c43da, 0xfb3e89cb,
      0xcc7617db, 0xb9e66c34, 0xa9993667, 0x84badedd, 0xc21462bc, 0x1487472c, 0xb20f7a99,
      0xef57b9cd, 0xebe6b238, 0x9fe3095e, 0x78bc8d4b, 0xa43fcf15, 0x668b2ff8, 0xeeaba2cc,
      0x12b1edeb]"

text \<open>
  An environment in which every collaborator answers: the download of any URL returns
  status 200, no headers and the package in two chunks; the object store returns the
  package for any key; the signing service answers 201 with one signature. The URL
  validator stands for marshmallow's regular expression and accepts what starts with
  \<^verbatim>\<open>http://\<close> or \<^verbatim>\<open>https://\<close>.
\<close>

definition example_url_regex :: "string \<Rightarrow> bool" where
  "example_url_regex u = (take 7 u = ''http://'' \<or> take 8 u = ''https://'')"

definition example_env :: env where
  "example_env =
     \<lparr>url_regex = example_url_regex,
      http_get = (\<lambda>url. Inr \<lparr>status_code = 200, headers = [],
                                iter_content = [[0x61, 0x62], [0x63]]\<rparr>),
      s3_download = (\<lambda>bucket key. Inr abc),
      tmp_name = ''/tmp/tmpq8UHlz'',
      jar_signature = (\<lambda>localfile. Inr [1, 2, 3]),
      b64encode = (\<lambda>payload. ''AQID''),
      b64decode = (\<lambda>s. Inr [4, 5, 6]),
      http_post = (\<lambda>url auth body.
         Inr \<lparr>post_status = 201,
              post_json = Inr (JArr [JObj [(''signature'', JStr ''BAUG'')]])\<rparr>),
      make_signed = (\<lambda>localfile signature output_file sigpath. Inr (localfile @ signature)),
      s3_put = (\<lambda>bucket key body. Inr ())\<rparr>"

text \<open>The execution context of lines 201-210.\<close>

definition example_context :: json where
  "example_context =
     JObj [(''autograph'',
            JObj [(''serverUrl'', JStr ''http://localhost:8000/''),
                  (''hawkId'', JStr ''alice''),
                  (''hawkSecret'', JStr ''fs5wgcer9qj819kfptdlp8gm227ewxnzvsuj9ztycsx08hfhzu''),
                  (''keyId'', JStr ''extensions-ecdsa'')]),
           (''outputBucket'', JStr ''eglassercamp-addon-sign-xpi-output'')]"

text \<open>Requests for a URL and for a stored object.\<close>

definition url_event :: "string \<Rightarrow> string \<Rightarrow> json" where
  "url_event url checksum =
     JObj [(''source'', JObj [(''url'', JStr url)]), (''checksum'', JStr checksum)]"

definition s3_event :: "string \<Rightarrow> string \<Rightarrow> string \<Rightarrow> json" where
  "s3_event bucket key checksum =
     JObj [(''source'', JObj [(''bucket'', JStr bucket), (''key'', JStr key)]),
           (''checksum'', JStr checksum)]"

text \<open>The signing authority of that context, as loaded.\<close>

definition example_autograph :: autograph_info where
  "example_autograph =
     \<lparr>hawk_id = ''alice'',
      hawk_secret = ''fs5wgcer9qj819kfptdlp8gm227ewxnzvsuj9ztycsx08hfhzu'',
      server_url = ''http://localhost:8000/'',
      key_id = ''extensions-ecdsa''\<rparr>"

text \<open>
  The same environment with another status in the answer of the signing service, and
  with a \<^verbatim>\<open>Content-Disposition\<close> header in the answer to the download.
\<close>

definition sign_status_env :: "nat \<Rightarrow> env" where
  "sign_status_env status =
     example_env\<lparr>http_post := (\<lambda>url auth body.
        Inr \<lparr>post_status = status,
             post_json = Inr (JArr [JObj [(''signature'', JStr ''BAUG'')]])\<rparr>)\<rparr>"

definition header_env :: "string \<Rightarrow> env" where
  "header_env content_disposition =
     example_env\<lparr>http_get := (\<lambda>url.
        Inr \<lparr>status_code = 200, headers = [(''Content-Disposition'', content_disposition)],
             iter_content = [[0x61, 0x62], [0x63]]\<rparr>)\<rparr>"

section \<open>What the specification says, for comparison\<close>

text \<open>
  The output file name of the specification (sections 4.6 and 8): the file name with
  \<^verbatim>\<open>-signed\<close> before its extension, \<^verbatim>\<open>bar.xpi\<close> giving \<^verbatim>\<open>bar-signed.xpi\<close>.
\<close>

definition spec_output_filename :: "string \<Rightarrow> string" where
  "spec_output_filename filename =
     (case splitext filename of (stem, ext) \<Rightarrow> stem @ ''-signed'' @ ext)"


text \<open>
  The invariant of the specification (section 3) on a source: exactly one of the two
  variants, the URL or the pair of bucket and key, is populated.
\<close>

definition spec_exactly_one_variant :: "string option \<Rightarrow> string option \<Rightarrow> string option \<Rightarrow> bool" where
  "spec_exactly_one_variant u b k =
     ((truthy u \<and> \<not> truthy b \<and> \<not> truthy k) \<or> (\<not> truthy u \<and> truthy b \<and> truthy k))"

text \<open>
  The URL of the signing request in the specification (section 4.4):
  \<^verbatim>\<open>{serviceURL}/sign/data\<close>, the service URL followed by the path, with one slash
  between them.
\<close>

definition spec_sign_url :: "string \<Rightarrow> string" where
  "spec_sign_url service_url =
     rev (dropWhile (\<lambda>c. c = CHR ''/'') (rev service_url)) @ ''/sign/data''"

section \<open>Sequencing\<close>

lemma io_bind_Inr:
  "io_bind m f = (Inr y, t) \<longleftrightarrow> (\<exists>x t1 t2. m = (Inr x, t1) \<and> f x = (Inr y, t2) \<and> t = t1 @ t2)"
  by (auto simp: io_bind_def split: prod.splits sum.splits)

lemma io_bind_Inl:
  "io_bind m f = (Inl e, t) \<longleftrightarrow>
     m = (Inl e, t) \<or> (\<exists>x t1 t2. m = (Inr x, t1) \<and> f x = (Inl e, t2) \<and> t = t1 @ t2)"
  by (auto simp: io_bind_def split: prod.splits sum.splits)

lemma io_bind_lift_Inr [simp]: "io_bind (io_lift (Inr x)) f = f x"
  by (simp add: io_bind_def io_lift_def split: prod.splits)

lemma io_bind_lift_Inl [simp]: "io_bind (io_lift (Inl e)) f = (Inl e, [])"
  by (simp add: io_bind_def io_lift_def)

lemma io_bind_call_Inr [simp]: "io_bind (io_call eff (Inr x)) f = (fst (f x), eff # snd (f x))"
  by (simp add: io_bind_def io_call_def split: prod.splits)

lemma io_bind_call_Inl [simp]: "io_bind (io_call eff (Inl e)) f = (Inl e, [eff])"
  by (simp add: io_bind_def io_call_def)

lemma retrieve_source_url:
  "url \<noteq> [] \<Longrightarrow> retrieve_source env \<lparr>ev_source = \<lparr>src_url = Some url, src_bucket = b, src_key = k\<rparr>, ev_checksum = c\<rparr>
     = retrieve_source env \<lparr>ev_source = \<lparr>src_url = Some url, src_bucket = b', src_key = k'\<rparr>, ev_checksum = c'\<rparr>"
  by (simp add: retrieve_source_def truthy_def getitem_def)


lemma retrieve_xpi_trace: "snd (retrieve_xpi env ev) = snd (retrieve_source env ev)"
  by (auto simp: retrieve_xpi_def io_bind_def io_lift_def io_raise_def io_return_def Let_def
           split: prod.splits sum.splits option.splits)

lemma retrieve_source_url_trace:
  "src_url (ev_source ev) = Some url \<Longrightarrow> url \<noteq> [] \<Longrightarrow> snd (retrieve_source env ev) = [HttpGet url]"
  by (cases "http_get env url")
     (auto simp: retrieve_source_def truthy_def getitem_def io_bind_def io_lift_def io_return_def
                 io_call_def split: prod.splits sum.splits)

lemma load_SourceInfo_ok:
  "load_SourceInfo re (JObj d) = ([], Some src) \<Longrightarrow> map_of d ''url'' = Some (JStr url) \<Longrightarrow>
     src_url src = Some url \<and> url \<noteq> [] \<and> re url"
  by (auto simp: load_SourceInfo_def URL_field_def String_field_def Let_def
           split: prod.splits option.splits json.splits if_splits)

lemma io_bind_pair_Inr [simp]: "io_bind (Inr x, t) f = (fst (f x), t @ snd (f x))"
  by (simp add: io_bind_def split: prod.splits)

lemma io_bind_pair_Inl [simp]: "io_bind (Inl e, t) f = (Inl e, t)"
  by (simp add: io_bind_def)

lemmas io_defs = io_return_def io_raise_def io_lift_def io_call_def

lemma io_bind_trace:
  "x \<in> set (snd (io_bind m f)) \<Longrightarrow> x \<in> set (snd m) \<or> (\<exists>y. x \<in> set (snd (f y)))"
  by (cases m; cases "fst m") (auto simp: io_bind_def split: prod.splits sum.splits, metis snd_conv)

text \<open>The stages of the handler, with the sequencing unfolded.\<close>

lemma handle_unfold:
  "handle env event ctx =
     (case load_SignEvent (url_regex env) event of
        Inl e \<Rightarrow> (Inl e, [])
      | Inr ev \<Rightarrow>
          (case load_Context ctx of
             Inl e \<Rightarrow> (Inl e, [])
           | Inr c \<Rightarrow>
               (case retrieve_xpi env ev of
                  (Inl e, t1) \<Rightarrow> (Inl e, t1)
                | (Inr (localfile, filename), t1) \<Rightarrow>
                    (case sign_xpi env (autograph c) localfile (get_guid localfile) of
                       (Inl e, t2) \<Rightarrow> (Inl e, t1 @ t2)
                     | (Inr (output_file, signed_contents), t2) \<Rightarrow>
                         (case s3_put env (output_bucket c) filename signed_contents of
                            Inl e \<Rightarrow> (Inl e, t1 @ t2 @ [S3Put (output_bucket c) filename signed_contents])
                          | Inr _ \<Rightarrow>
                              (Inr \<lparr>up_bucket = output_bucket c, up_key = filename\<rparr>,
                               t1 @ t2 @ [S3Put (output_bucket c) filename signed_contents]))))))"
  by (simp add: handle_def upload_def io_defs Let_def split: sum.splits prod.splits)

lemma retrieve_xpi_unfold:
  "retrieve_xpi env ev =
     (case retrieve_source env ev of
        (Inl e, t) \<Rightarrow> (Inl e, t)
      | (Inr (url, contents, filename), t) \<Rightarrow>
          (case ev_checksum ev of
             None \<Rightarrow> (Inl (KeyError ''checksum''), t)
           | Some checksum \<Rightarrow>
               (if compute_checksum contents \<noteq> checksum then
                  (case url of
                     None \<Rightarrow> (Inl (UnboundLocalError ''url''), t)
                   | Some u \<Rightarrow> (Inl (ChecksumMatchError_init u checksum (compute_checksum contents)), t))
                else (Inr (contents, filename), t))))"
  by (simp add: retrieve_xpi_def getitem_def io_defs Let_def split: sum.splits prod.splits option.splits)

lemma retrieve_source_trace:
  "\<forall>x \<in> set (snd (retrieve_source env ev)). is_retrieval x"
  by (auto simp: retrieve_source_def io_defs Let_def split: if_splits dest!: io_bind_trace)

lemma sign_xpi_unfold:
  "sign_xpi env info localfile guid =
     (case jar_signature env localfile of
        Inl e \<Rightarrow> (Inl e, [JarExtract])
      | Inr payload \<Rightarrow>
          (case HawkAuth (hawk_id info) (hawk_secret info) of
             Inl e \<Rightarrow> (Inl e, [JarExtract])
           | Inr auth \<Rightarrow>
          (case urljoin_sign_data (server_url info) of
             Inl e \<Rightarrow> (Inl e, [JarExtract])
           | Inr url \<Rightarrow>
               (let body = sign_request_body (b64encode env payload) (key_id info) guid;
                    output_file = fst (splitext (tmp_name env)) @ ''-signed''
                                    @ snd (splitext (tmp_name env))
                in (case http_post env url auth body of
                      Inl e \<Rightarrow> (Inl e, [JarExtract, HttpPost url auth body])
                    | Inr resp \<Rightarrow>
                        (case response_signature env resp of
                           Inl e \<Rightarrow> (Inl e, [JarExtract, HttpPost url auth body])
                         | Inr signature \<Rightarrow>
                             (case make_signed env localfile signature output_file ''mozilla.rsa'' of
                                Inl e \<Rightarrow> (Inl e, [JarExtract, HttpPost url auth body,
                                                  MakeSigned signature output_file ''mozilla.rsa''])
                              | Inr signed_contents \<Rightarrow>
                                  (Inr (output_file, signed_contents),
                                   [JarExtract, HttpPost url auth body,
                                    MakeSigned signature output_file ''mozilla.rsa'']))))))))"
  by (simp add: sign_xpi_def io_defs Let_def split: sum.splits prod.splits)

section \<open>The digest of the test vector\<close>

lemma schedule_numeral: "schedule (numeral n) rw =
     schedule (pred_numeral n) ((ssig1 (rw ! 1) + rw ! 6 + ssig0 (rw ! 14) + rw ! 15) # rw)"
  by (simp add: numeral_eq_Suc)

lemma replicate_numeral: "replicate (numeral n) x = x # replicate (pred_numeral n) x"
  by (simp add: numeral_eq_Suc)

lemma fold_take_add: "fold f (take (m + n) xs) s = fold f (take n (drop m xs)) (fold f (take m xs) s)"
  by (simp add: take_add)

lemma round256_simp:
  "round256 (k, w) [a, b, c, d, e, f, g, h] =
     [h + bsig1 e + Ch e f g + k + w + (bsig0 a + Maj a b c), a, b, c,
      d + (h + bsig1 e + Ch e f g + k + w), e, f, g]"
  by (simp add: round256_def Let_def)

lemma abc_schedule_eval:
  "rev (schedule 48 (rev (be_words (sha256_pad abc)))) = abc_schedule"
  by (simp add: abc_def abc_schedule_def sha256_pad_def be64_def replicate_numeral
        schedule_numeral ssig0_def ssig1_def rotr_def)

lemma abc_rounds_8:
  "fold round256 (take 8 (zip K256 abc_schedule)) H256_init =
     [0x85a07b5f, 0xe5030380, 0x2b4209f5, 0x04409a6a, 0x0c657a79, 0x9b27a401, 0x714260ad,
      0x43ada245]"
  by (simp add: K256_def H256_init_def abc_schedule_def round256_simp bsig0_def bsig1_def Ch_def Maj_def rotr_def)

lemma abc_rounds_16:
  "fold round256 (take 16 (zip K256 abc_schedule)) H256_init =
     [0xb0fa238e, 0xc0645fde, 0xd932eb16, 0x87912990, 0x07590dcd, 0x0b92f20c, 0x745a48de,
      0x1e578218]"
  by (simp only: fold_take_add [of _ 8 8, simplified] abc_rounds_8)
     (simp add: K256_def abc_schedule_def round256_simp bsig0_def bsig1_def Ch_def Maj_def rotr_def)

lemma abc_rounds_24:
  "fold round256 (take 24 (zip K256 abc_schedule)) H256_init =
     [0xc5d53d8d, 0xa7a3623f, 0xc2606d6d, 0x9dc68b63, 0xaa47c347, 0x49f5114a, 0xe1257970,
      0x8ada8930]"
  by (simp only: fold_take_add [of _ 16 8, simplified] abc_rounds_16)
     (simp add: K256_def abc_schedule_def round256_simp bsig0_def bsig1_def Ch_def Maj_def rotr_def)

lemma abc_rounds_32:
  "fold round256 (take 32 (zip K256 abc_schedule)) H256_init =
     [0x73b33bf5, 0xea992a22, 0xa0060b30, 0x363482c9, 0xba591112, 0x0109ab3a, 0xade79437,
      0x6112a3b7]"
  by (simp only: fold_take_add [of _ 24 8, simplified] abc_rounds_24)
     (simp add: K256_def abc_schedule_def round256_simp bsig0_def bsig1_def Ch_def Maj_def rotr_def)

lemma abc_rounds_40:
  "fold round256 (take 40 (zip K256 abc_schedule)) H256_init =
     [0x79ea687a, 0x6dc57a8a, 0x34df1604, 0x41a65cb1, 0x1efbc0a0, 0xf0781bc8, 0xa507a53d,
      0x0772a26b]"
  by (simp only: fold_take_add [of _ 32 8, simplified] abc_rounds_32)
     (simp add: K256_def abc_schedule_def round256_simp bsig0_def bsig1_def Ch_def Maj_def rotr_def)

lemma abc_rounds_48:
  "fold round256 (take 48 (zip K256 abc_schedule)) H256_init =
     [0x4172328d, 0xa14c14b0, 0x72ab4b91, 0x26628815, 0xfecf0bc6, 0xd57b94a9, 0xb7755da1,
      0xa80f11f0]"
  by (simp only: fold_take_add [of _ 40 8, simplified] abc_rounds_40)
     (simp add: K256_def abc_schedule_def round256_simp bsig0_def bsig1_def Ch_def Maj_def rotr_def)

lemma abc_rounds_56:
  "fold round256 (take 56 (zip K256 abc_schedule)) H256_init =
     [0x38cc9913, 0x3ec45cdb, 0xf5702fdb, 0x101fd28f, 0x54cb266b, 0xe50e1b4f, 0x9f4787c3,
      0x529e7d00]"
  by (simp only: fold_take_add [of _ 48 8, simplified] abc_rounds_48)
     (simp add: K256_def abc_schedule_def round256_simp bsig0_def bsig1_def Ch_def Maj_def rotr_def)

lemma abc_rounds_64:
  "fold round256 (take 64 (zip K256 abc_schedule)) H256_init =
     [0x506e3058, 0xd39a2165, 0x04d24d6c, 0xb85e2ce9, 0x5ef50f24, 0xfb121210, 0x948d25b6,
      0x961f4894]"
  by (simp only: fold_take_add [of _ 56 8, simplified] abc_rounds_56)
     (simp add: K256_def abc_schedule_def round256_simp bsig0_def bsig1_def Ch_def Maj_def rotr_def)

lemma abc_compress:
  "compress H256_init (sha256_pad abc) =
     [0xba7816bf, 0x8f01cfea, 0x414140de, 0x5dae2223, 0xb00361a3, 0x96177a9c, 0xb410ff61,
      0xf20015ad]"
proof -
  have "length (zip K256 abc_schedule) = 64"
    by (simp add: K256_def abc_schedule_def)
  then have "fold round256 (zip K256 abc_schedule) H256_init =
      fold round256 (take 64 (zip K256 abc_schedule)) H256_init"
    by simp
  then have "compress H256_init (sha256_pad abc) = map2 (+) H256_init
     [0x506e3058, 0xd39a2165, 0x04d24d6c, 0xb85e2ce9, 0x5ef50f24, 0xfb121210, 0x948d25b6,
      0x961f4894]"
    by (simp only: compress_def abc_schedule_eval abc_rounds_64 Let_def)
  then show ?thesis
    by (simp add: H256_init_def)
qed

lemma abc_sha256_hexdigest:
  "sha256_hexdigest abc = ''ba7816bf8f01cfea414140de5dae2223b00361a396177a9cb410ff61f20015ad''"
proof -
  have "length (sha256_pad abc) = 64"
    by (simp add: sha256_pad_def abc_def be64_def)
  moreover have "take 64 (sha256_pad abc) = sha256_pad abc"
    using calculation by simp
  ultimately show ?thesis
    by (simp add: sha256_hexdigest_def sha256_def abc_compress hexlify_def hexdigit_def)
qed

section \<open>The shape of a digest\<close>

lemma length_round256 [simp]: "length (round256 kw s) = length s"
  by (auto simp: round256_def Let_def split: list.splits)

lemma length_fold_round256 [simp]: "length (fold round256 kws s) = length s"
  by (induction kws arbitrary: s) simp_all

lemma length_compress [simp]: "length (compress hs block) = length hs"
  by (simp add: compress_def Let_def)

lemma length_fold_compress [simp]: "length (fold (\<lambda>b hs. compress hs b) bs hs) = length hs"
  by (induction bs arbitrary: hs) simp_all






section \<open>A run of the handler\<close>

text \<open>
  The definitions that a run on the fixtures unfolds, and the run of the request for
  \<^verbatim>\<open>http://example.com/a.xpi\<close> with the digest of the package as checksum.
\<close>

lemmas eval_defs =
  handle_def load_SignEvent_def load_Context_def load_SourceInfo_def load_AutographInfo_def
  Nested_field_def String_field_def URL_field_def String_field_load_from_def
  verify_either_url_or_s3_info_def is_ascii_def ChecksumMatchError_init_def HawkAuth_def
  truthy_def retrieve_xpi_def retrieve_source_def getitem_def raise_for_status_def unpack_second_def
  rsplit_once_def strip_chars_def extract_response_filename_def headers_get_def py_or_def
  compute_checksum_def get_guid_def sign_xpi_def urljoin_sign_data_def urlsplit_def urlunsplit_def
  find_char_def splitnetloc_def split_once_def lower_def lower_char_def scheme_chars_def
  uses_relative_def uses_netloc_def json_first_def json_getitem_def b64decode_json_def response_signature_def sign_request_body_def
  splitext_def rfind_def upload_def io_defs
  example_env_def example_context_def example_url_regex_def url_event_def s3_event_def
  strip_def py_whitespace_def unquote_def Let_def

lemma example_run:
  "handle example_env
     (url_event ''http://example.com/a.xpi''
        ''ba7816bf8f01cfea414140de5dae2223b00361a396177a9cb410ff61f20015ad'')
     example_context =
   (Inr \<lparr>up_bucket = ''eglassercamp-addon-sign-xpi-output'', up_key = ''a.xpi''\<rparr>,
    [HttpGet ''http://example.com/a.xpi'',
     JarExtract,
     HttpPost ''http://localhost:8000/sign/data''
       (''alice'', ''fs5wgcer9qj819kfptdlp8gm227ewxnzvsuj9ztycsx08hfhzu'')
       (JArr [JObj [(''input'', JStr ''AQID''), (''keyid'', JStr ''extensions-ecdsa''),
                    (''options'', JObj [(''id'', JStr ''some-fake-guid@example.com'')])]]),
     MakeSigned [4, 5, 6] ''/tmp/tmpq8UHlz-signed'' ''mozilla.rsa'',
     S3Put ''eglassercamp-addon-sign-xpi-output'' ''a.xpi'' [0x61, 0x62, 0x63, 4, 5, 6]])"
  by (simp add: eval_defs abc_sha256_hexdigest [unfolded abc_def])

section \<open>The key of the uploaded object\<close>

text \<open>
  Claim C1, as the code has it. When \<^verbatim>\<open>handle\<close> succeeds, the key of the result is the
  file name that \<^verbatim>\<open>retrieve_xpi\<close> derived, unchanged, the bucket is the configured
  output bucket, and the upload to that bucket under that key is the last call. The
  suffix \<^verbatim>\<open>-signed\<close> goes into the name of the local file that \<^verbatim>\<open>make_signed\<close> writes,
  before the extension of the temporary file's name.
\<close>

theorem upload_key_is_retrieved_filename:
  assumes "handle env event ctx = (Inr r, t)"
  shows "\<exists>ev c localfile filename t1 signature signed_contents.
           load_SignEvent (url_regex env) event = Inr ev
         \<and> load_Context ctx = Inr c
         \<and> retrieve_xpi env ev = (Inr (localfile, filename), t1)
         \<and> up_key r = filename
         \<and> up_bucket r = output_bucket c
         \<and> MakeSigned signature
              (fst (splitext (tmp_name env)) @ ''-signed'' @ snd (splitext (tmp_name env)))
              ''mozilla.rsa'' \<in> set t
         \<and> last t = S3Put (output_bucket c) filename signed_contents"
  using assms
  by (auto simp: handle_unfold sign_xpi_unfold Let_def split: sum.splits prod.splits)

theorem upload_key_is_retrieved_filename_witness:
  "handle example_env (url_event ''http://example.com/a.xpi''
        ''ba7816bf8f01cfea414140de5dae2223b00361a396177a9cb410ff61f20015ad''
       ) example_context = (Inr \<lparr>up_bucket = ''eglassercamp-addon-sign-xpi-output'', up_key = ''a.xpi''\<rparr>, [HttpGet ''http://example.com/a.xpi'', JarExtract,
      HttpPost ''http://localhost:8000/sign/data''
        (''alice'', ''fs5wgcer9qj819kfptdlp8gm227ewxnzvsuj9ztycsx08hfhzu'')
        (JArr [JObj [(''input'', JStr ''AQID''), (''keyid'', JStr ''extensions-ecdsa''),
                     (''options'', JObj [(''id'', JStr ''some-fake-guid@example.com'')])]]),
      MakeSigned [4, 5, 6] ''/tmp/tmpq8UHlz-signed'' ''mozilla.rsa'',
      S3Put ''eglassercamp-addon-sign-xpi-output'' ''a.xpi'' [0x61, 0x62, 0x63, 4, 5, 6]])
   \<and> (\<exists>ev c localfile filename t1 signature signed_contents.
           load_SignEvent (url_regex example_env) (url_event ''http://example.com/a.xpi''
        ''ba7816bf8f01cfea414140de5dae2223b00361a396177a9cb410ff61f20015ad''
       ) = Inr ev
         \<and> load_Context example_context = Inr c
         \<and> retrieve_xpi example_env ev = (Inr (localfile, filename), t1)
         \<and> up_key \<lparr>up_bucket = ''eglassercamp-addon-sign-xpi-output'', up_key = ''a.xpi''\<rparr> = filename
         \<and> up_bucket \<lparr>up_bucket = ''eglassercamp-addon-sign-xpi-output'', up_key = ''a.xpi''\<rparr> = output_bucket c
         \<and> MakeSigned signature
              (fst (splitext (tmp_name example_env)) @ ''-signed''
                 @ snd (splitext (tmp_name example_env)))
              ''mozilla.rsa'' \<in> set [HttpGet ''http://example.com/a.xpi'', JarExtract,
      HttpPost ''http://localhost:8000/sign/data''
        (''alice'', ''fs5wgcer9qj819kfptdlp8gm227ewxnzvsuj9ztycsx08hfhzu'')
        (JArr [JObj [(''input'', JStr ''AQID''), (''keyid'', JStr ''extensions-ecdsa''),
                     (''options'', JObj [(''id'', JStr ''some-fake-guid@example.com'')])]]),
      MakeSigned [4, 5, 6] ''/tmp/tmpq8UHlz-signed'' ''mozilla.rsa'',
      S3Put ''eglassercamp-addon-sign-xpi-output'' ''a.xpi'' [0x61, 0x62, 0x63, 4, 5, 6]]
         \<and> last [HttpGet ''http://example.com/a.xpi'', JarExtract,
      HttpPost ''http://localhost:8000/sign/data''
        (''alice'', ''fs5wgcer9qj819kfptdlp8gm227ewxnzvsuj9ztycsx08hfhzu'')
        (JArr [JObj [(''input'', JStr ''AQID''), (''keyid'', JStr ''extensions-ecdsa''),
                     (''options'', JObj [(''id'', JStr ''some-fake-guid@example.com'')])]]),
      MakeSigned [4, 5, 6] ''/tmp/tmpq8UHlz-signed'' ''mozilla.rsa'',
      S3Put ''eglassercamp-addon-sign-xpi-output'' ''a.xpi'' [0x61, 0x62, 0x63, 4, 5, 6]] = S3Put (output_bucket c) filename signed_contents)"
  by (rule conjI [OF example_run upload_key_is_retrieved_filename [OF example_run]])

text \<open>
  The claim as the specification states it fails on the request for
  \<^verbatim>\<open>http://example.com/a.xpi\<close>: the key is \<^verbatim>\<open>a.xpi\<close>, not \<^verbatim>\<open>a-signed.xpi\<close>.
\<close>

theorem upload_key_counterexample:
  "handle example_env (url_event ''http://example.com/a.xpi''
        ''ba7816bf8f01cfea414140de5dae2223b00361a396177a9cb410ff61f20015ad''
       ) example_context = (Inr \<lparr>up_bucket = ''eglassercamp-addon-sign-xpi-output'', up_key = ''a.xpi''\<rparr>, [HttpGet ''http://example.com/a.xpi'', JarExtract,
      HttpPost ''http://localhost:8000/sign/data''
        (''alice'', ''fs5wgcer9qj819kfptdlp8gm227ewxnzvsuj9ztycsx08hfhzu'')
        (JArr [JObj [(''input'', JStr ''AQID''), (''keyid'', JStr ''extensions-ecdsa''),
                     (''options'', JObj [(''id'', JStr ''some-fake-guid@example.com'')])]]),
      MakeSigned [4, 5, 6] ''/tmp/tmpq8UHlz-signed'' ''mozilla.rsa'',
      S3Put ''eglassercamp-addon-sign-xpi-output'' ''a.xpi'' [0x61, 0x62, 0x63, 4, 5, 6]])
   \<and> spec_output_filename ''a.xpi'' = ''a-signed.xpi''
   \<and> up_key \<lparr>up_bucket = ''eglassercamp-addon-sign-xpi-output'', up_key = ''a.xpi''\<rparr> \<noteq> spec_output_filename ''a.xpi''"
  by (simp add: example_run spec_output_filename_def splitext_def rfind_def)

section \<open>The comparison of the checksum\<close>




section \<open>No signing before the checksum is verified\<close>

lemma retrieve_xpi_Inr:
  "retrieve_xpi env ev = (Inr (localfile, filename), t1) \<Longrightarrow>
     \<exists>url. retrieve_source env ev = (Inr (url, localfile, filename), t1)
         \<and> ev_checksum ev = Some (compute_checksum localfile)"
  by (auto simp: retrieve_xpi_unfold split: sum.splits prod.splits option.splits if_splits)

lemma retrieve_xpi_trace_retrieval: "\<forall>x \<in> set (snd (retrieve_xpi env ev)). is_retrieval x"
  using retrieve_source_trace [of env ev] by (simp add: retrieve_xpi_trace)

text \<open>
  Claim C3. Every call of an invocation that is not a call of the retrieval stage, so
  every signing request, every call of the archive library and every upload, comes
  after the whole retrieval, and there is one only when the request passed validation,
  the package was retrieved and the checksum of the request is the digest of the
  retrieved bytes. With any other checksum the signing, packaging and publishing stages
  make no call.
\<close>

theorem signing_only_after_verified_checksum:
  assumes "handle env event ctx = (r, t)" and "x \<in> set t" and "\<not> is_retrieval x"
  shows "\<exists>ev url contents filename t1 t2.
           load_SignEvent (url_regex env) event = Inr ev
         \<and> retrieve_source env ev = (Inr (url, contents, filename), t1)
         \<and> ev_checksum ev = Some (compute_checksum contents)
         \<and> t = t1 @ t2 \<and> (\<forall>y \<in> set t1. is_retrieval y) \<and> x \<in> set t2"
proof (cases "load_SignEvent (url_regex env) event")
  case (Inl e)
  with assms show ?thesis by (simp add: handle_unfold)
next
  case ev: (Inr ev)
  show ?thesis
  proof (cases "load_Context ctx")
    case (Inl e)
    with assms ev show ?thesis by (simp add: handle_unfold)
  next
    case c: (Inr c)
    obtain res t1 where rx: "retrieve_xpi env ev = (res, t1)"
      by (cases "retrieve_xpi env ev")
    have t1: "\<forall>y \<in> set t1. is_retrieval y"
      using retrieve_xpi_trace_retrieval [of env ev] rx by simp
    show ?thesis
    proof (cases res)
      case (Inl e)
      with assms ev c rx t1 show ?thesis by (auto simp: handle_unfold)
    next
      case (Inr p)
      obtain localfile filename where p: "p = (localfile, filename)"
        by (cases p)
      from rx Inr p obtain url where
        src: "retrieve_source env ev = (Inr (url, localfile, filename), t1)"
        and ck: "ev_checksum ev = Some (compute_checksum localfile)"
        using retrieve_xpi_Inr by blast
      from assms(1) ev c rx Inr p obtain t2 where t: "t = t1 @ t2"
        by (auto simp: handle_unfold split: sum.splits prod.splits)
      with assms(2,3) t1 have "x \<in> set t2" by auto
      with ev src ck t t1 show ?thesis by blast
    qed
  qed
qed

theorem signing_only_after_verified_checksum_witness:
  "handle example_env (url_event ''http://example.com/a.xpi''
        ''ba7816bf8f01cfea414140de5dae2223b00361a396177a9cb410ff61f20015ad''
       ) example_context = (Inr \<lparr>up_bucket = ''eglassercamp-addon-sign-xpi-output'', up_key = ''a.xpi''\<rparr>, 
     [HttpGet ''http://example.com/a.xpi'', JarExtract,
      HttpPost ''http://localhost:8000/sign/data''
        (''alice'', ''fs5wgcer9qj819kfptdlp8gm227ewxnzvsuj9ztycsx08hfhzu'')
        (JArr [JObj [(''input'', JStr ''AQID''), (''keyid'', JStr ''extensions-ecdsa''),
                     (''options'', JObj [(''id'', JStr ''some-fake-guid@example.com'')])]]),
      MakeSigned [4, 5, 6] ''/tmp/tmpq8UHlz-signed'' ''mozilla.rsa'',
      S3Put ''eglassercamp-addon-sign-xpi-output'' ''a.xpi'' [0x61, 0x62, 0x63, 4, 5, 6]]
    )
   \<and> 
     (HttpPost ''http://localhost:8000/sign/data''
        (''alice'', ''fs5wgcer9qj819kfptdlp8gm227ewxnzvsuj9ztycsx08hfhzu'')
        (JArr [JObj [(''input'', JStr ''AQID''), (''keyid'', JStr ''extensions-ecdsa''),
                     (''options'', JObj [(''id'', JStr ''some-fake-guid@example.com'')])]]))
     \<in> set 
     [HttpGet ''http://example.com/a.xpi'', JarExtract,
      HttpPost ''http://localhost:8000/sign/data''
        (''alice'', ''fs5wgcer9qj819kfptdlp8gm227ewxnzvsuj9ztycsx08hfhzu'')
        (JArr [JObj [(''input'', JStr ''AQID''), (''keyid'', JStr ''extensions-ecdsa''),
                     (''options'', JObj [(''id'', JStr ''some-fake-guid@example.com'')])]]),
      MakeSigned [4, 5, 6] ''/tmp/tmpq8UHlz-signed'' ''mozilla.rsa'',
      S3Put ''eglassercamp-addon-sign-xpi-output'' ''a.xpi'' [0x61, 0x62, 0x63, 4, 5, 6]]
    
   \<and> \<not> is_retrieval 
     (HttpPost ''http://localhost:8000/sign/data''
        (''alice'', ''fs5wgcer9qj819kfptdlp8gm227ewxnzvsuj9ztycsx08hfhzu'')
        (JArr [JObj [(''input'', JStr ''AQID''), (''keyid'', JStr ''extensions-ecdsa''),
                     (''options'', JObj [(''id'', JStr ''some-fake-guid@example.com'')])]]))
    
   \<and> (\<exists>ev url contents filename t1 t2.
           load_SignEvent (url_regex example_env) (url_event ''http://example.com/a.xpi''
        ''ba7816bf8f01cfea414140de5dae2223b00361a396177a9cb410ff61f20015ad''
       ) = Inr ev
         \<and> retrieve_source example_env ev = (Inr (url, contents, filename), t1)
         \<and> ev_checksum ev = Some (compute_checksum contents)
         \<and> 
     [HttpGet ''http://example.com/a.xpi'', JarExtract,
      HttpPost ''http://localhost:8000/sign/data''
        (''alice'', ''fs5wgcer9qj819kfptdlp8gm227ewxnzvsuj9ztycsx08hfhzu'')
        (JArr [JObj [(''input'', JStr ''AQID''), (''keyid'', JStr ''extensions-ecdsa''),
                     (''options'', JObj [(''id'', JStr ''some-fake-guid@example.com'')])]]),
      MakeSigned [4, 5, 6] ''/tmp/tmpq8UHlz-signed'' ''mozilla.rsa'',
      S3Put ''eglassercamp-addon-sign-xpi-output'' ''a.xpi'' [0x61, 0x62, 0x63, 4, 5, 6]]
     = t1 @ t2 \<and> (\<forall>y \<in> set t1. is_retrieval y) \<and> 
     (HttpPost ''http://localhost:8000/sign/data''
        (''alice'', ''fs5wgcer9qj819kfptdlp8gm227ewxnzvsuj9ztycsx08hfhzu'')
        (JArr [JObj [(''input'', JStr ''AQID''), (''keyid'', JStr ''extensions-ecdsa''),
                     (''options'', JObj [(''id'', JStr ''some-fake-guid@example.com'')])]]))
     \<in> set t2)"
proof -
  have member: "
     (HttpPost ''http://localhost:8000/sign/data''
        (''alice'', ''fs5wgcer9qj819kfptdlp8gm227ewxnzvsuj9ztycsx08hfhzu'')
        (JArr [JObj [(''input'', JStr ''AQID''), (''keyid'', JStr ''extensions-ecdsa''),
                     (''options'', JObj [(''id'', JStr ''some-fake-guid@example.com'')])]]))
     \<in> set 
     [HttpGet ''http://example.com/a.xpi'', JarExtract,
      HttpPost ''http://localhost:8000/sign/data''
        (''alice'', ''fs5wgcer9qj819kfptdlp8gm227ewxnzvsuj9ztycsx08hfhzu'')
        (JArr [JObj [(''input'', JStr ''AQID''), (''keyid'', JStr ''extensions-ecdsa''),
                     (''options'', JObj [(''id'', JStr ''some-fake-guid@example.com'')])]]),
      MakeSigned [4, 5, 6] ''/tmp/tmpq8UHlz-signed'' ''mozilla.rsa'',
      S3Put ''eglassercamp-addon-sign-xpi-output'' ''a.xpi'' [0x61, 0x62, 0x63, 4, 5, 6]]
    "
    by simp
  have signing: "\<not> is_retrieval 
     (HttpPost ''http://localhost:8000/sign/data''
        (''alice'', ''fs5wgcer9qj819kfptdlp8gm227ewxnzvsuj9ztycsx08hfhzu'')
        (JArr [JObj [(''input'', JStr ''AQID''), (''keyid'', JStr ''extensions-ecdsa''),
                     (''options'', JObj [(''id'', JStr ''some-fake-guid@example.com'')])]]))
    "
    by simp
  show ?thesis
    by (rule conjI [OF example_run conjI [OF member conjI [OF signing
          signing_only_after_verified_checksum [OF example_run member signing]]]])
qed

section \<open>Validation of the source\<close>

text \<open>
  Claim C4, as the code has it. For a source whose fields \<^verbatim>\<open>url\<close>, \<^verbatim>\<open>bucket\<close> and
  \<^verbatim>\<open>key\<close> are strings or absent, validation succeeds, and loads these fields, if and
  only if the URL is a non-empty string that the URL validator accepts, or the URL is
  absent and both the bucket and the key are non-empty; in every other case it fails. So
  a source with neither variant fails, a bucket without a key or a key without a bucket
  fails when there is no URL, and a source with a valid URL passes whatever its bucket
  and key are, both variants together included.
\<close>

theorem source_validation:
  assumes "map_of d ''url'' = map_option JStr u"
    and "map_of d ''bucket'' = map_option JStr b"
    and "map_of d ''key'' = map_option JStr k"
  shows "((load_SourceInfo re (JObj d) = ([], Some \<lparr>src_url = u, src_bucket = b, src_key = k\<rparr>))
            = ((\<exists>s. u = Some s \<and> s \<noteq> [] \<and> re s) \<or> (u = None \<and> truthy b \<and> truthy k)))
       \<and> ((snd (load_SourceInfo re (JObj d)) = None)
            = (\<not> ((\<exists>s. u = Some s \<and> s \<noteq> [] \<and> re s) \<or> (u = None \<and> truthy b \<and> truthy k))))"
  using assms
  by (cases u; cases b; cases k;
      auto simp: load_SourceInfo_def URL_field_def String_field_def Let_def
           verify_either_url_or_s3_info_def truthy_def)

theorem source_validation_witness:
  "map_of [(''url'', JStr ''http://example.com/a.xpi'')] ''url'' = map_option JStr (Some ''http://example.com/a.xpi'')
   \<and> map_of [(''url'', JStr ''http://example.com/a.xpi'')] ''bucket'' = map_option JStr None
   \<and> map_of [(''url'', JStr ''http://example.com/a.xpi'')] ''key'' = map_option JStr None
   \<and> ((load_SourceInfo example_url_regex (JObj [(''url'', JStr ''http://example.com/a.xpi'')])
         = ([], Some \<lparr>src_url = Some ''http://example.com/a.xpi'', src_bucket = None, src_key = None\<rparr>))
        = ((\<exists>s. Some ''http://example.com/a.xpi'' = Some s \<and> s \<noteq> [] \<and> example_url_regex s)
           \<or> (Some ''http://example.com/a.xpi'' = None \<and> truthy None \<and> truthy None)))
   \<and> ((snd (load_SourceInfo example_url_regex (JObj [(''url'', JStr ''http://example.com/a.xpi'')])) = None)
        = (\<not> ((\<exists>s. Some ''http://example.com/a.xpi'' = Some s \<and> s \<noteq> [] \<and> example_url_regex s)
           \<or> (Some ''http://example.com/a.xpi'' = None \<and> truthy None \<and> truthy None))))"
proof -
  have url: "map_of [(''url'', JStr ''http://example.com/a.xpi'')] ''url'' = map_option JStr (Some ''http://example.com/a.xpi'')"
    by simp
  have no_bucket: "map_of [(''url'', JStr ''http://example.com/a.xpi'')] ''bucket'' = map_option JStr None"
    by simp
  have no_key: "map_of [(''url'', JStr ''http://example.com/a.xpi'')] ''key'' = map_option JStr None"
    by simp
  show ?thesis
    by (rule conjI [OF url conjI [OF no_bucket conjI [OF no_key
          source_validation [OF url no_bucket no_key]]]])
qed

text \<open>
  The claim as the specification states it fails on a source with a URL, a bucket and a
  key: no single variant is populated, and validation succeeds.
\<close>

theorem source_both_variants_counterexample:
  "load_SourceInfo example_url_regex
       (JObj [(''url'', JStr ''http://example.com/a.xpi''), (''bucket'', JStr ''addons''), (''key'', JStr ''other/b.xpi'')])
     = ([], Some \<lparr>src_url = Some ''http://example.com/a.xpi'', src_bucket = Some ''addons'',
                   src_key = Some ''other/b.xpi''\<rparr>)
   \<and> \<not> spec_exactly_one_variant (Some ''http://example.com/a.xpi'') (Some ''addons'') (Some ''other/b.xpi'')"
  by (simp add: load_SourceInfo_def URL_field_def String_field_def example_url_regex_def
        verify_either_url_or_s3_info_def truthy_def spec_exactly_one_variant_def)

section \<open>Validation of the checksum\<close>

lemma Nested_field_paths:
  "p \<in> set (fst (Nested_field load_schema required_fields name raw)) \<Longrightarrow> \<exists>q. p = name # q"
  by (auto simp: Nested_field_def split: option.splits json.splits prod.splits if_splits)

lemma String_field_checksum:
  "fst (String_field False ''checksum'' raw)
     = (if \<exists>v. raw = Some v \<and> (\<forall>s. v \<noteq> JStr s) then [[''checksum'']] else [])"
  by (auto simp: String_field_def split: option.splits json.splits)

text \<open>
  Claim C5, as the code has it. For a request whose \<^verbatim>\<open>source\<close> is an object, is
  \<^verbatim>\<open>null\<close> or is absent, validation names the field \<^verbatim>\<open>checksum\<close> exactly when it is
  present and is not a string (\<^verbatim>\<open>null\<close> included); such a request fails with that
  \<open>ValidationError\<close> and the invocation makes no call at all. A checksum that is a
  string, the empty string included, is not rejected by validation.
\<close>

theorem checksum_field_validation:
  assumes "map_of d ''source'' = None \<or> map_of d ''source'' = Some JNull
           \<or> (\<exists>fields. map_of d ''source'' = Some (JObj fields))"
  shows
  "((\<exists>paths. load_SignEvent (url_regex env) (JObj d) = Inl (ValidationError paths)
              \<and> [''checksum''] \<in> set paths)
      = (\<exists>v. map_of d ''checksum'' = Some v \<and> (\<forall>s. v \<noteq> JStr s)))
   \<and> ((\<exists>v. map_of d ''checksum'' = Some v \<and> (\<forall>s. v \<noteq> JStr s))
        \<longrightarrow> (\<exists>paths. handle env (JObj d) ctx = (Inl (ValidationError paths), [])
                     \<and> [''checksum''] \<in> set paths))"
proof -
  obtain e1 s where n: "Nested_field (load_SourceInfo (url_regex env)) [] ''source'' (map_of d ''source'') = (e1, s)"
    by (cases "Nested_field (load_SourceInfo (url_regex env)) [] ''source'' (map_of d ''source'')")
  obtain e2 c where f: "String_field False ''checksum'' (map_of d ''checksum'') = (e2, c)"
    by (cases "String_field False ''checksum'' (map_of d ''checksum'')")
  have e1: "[''checksum''] \<notin> set e1"
    using Nested_field_paths [of "[''checksum'']" "load_SourceInfo (url_regex env)" "[]" "''source''" "map_of d ''source''"] n
    by auto
  have e2: "e2 = (if \<exists>v. map_of d ''checksum'' = Some v \<and> (\<forall>s. v \<noteq> JStr s) then [[''checksum'']] else [])"
    using String_field_checksum [of "map_of d ''checksum''"] f by simp
  have loaded: "(\<exists>paths. load_SignEvent (url_regex env) (JObj d) = Inl (ValidationError paths)
              \<and> [''checksum''] \<in> set paths)
      = (\<exists>v. map_of d ''checksum'' = Some v \<and> (\<forall>s. v \<noteq> JStr s))"
    using n f e1 e2 by (auto simp: load_SignEvent_def Let_def split: option.splits if_splits)
  then show ?thesis
    by (auto simp: handle_unfold)
qed

theorem checksum_field_validation_witness:
  "(map_of [(''source'', JObj [(''url'', JStr ''http://example.com/a.xpi'')]), (''checksum'', JNum 5)] ''source'' = None
      \<or> map_of [(''source'', JObj [(''url'', JStr ''http://example.com/a.xpi'')]), (''checksum'', JNum 5)] ''source'' = Some JNull
      \<or> (\<exists>fields. map_of [(''source'', JObj [(''url'', JStr ''http://example.com/a.xpi'')]), (''checksum'', JNum 5)] ''source''
            = Some (JObj fields)))
   \<and> (\<exists>v. map_of [(''source'', JObj [(''url'', JStr ''http://example.com/a.xpi'')]), (''checksum'', JNum 5)] ''checksum'' = Some v
        \<and> (\<forall>s. v \<noteq> JStr s))
   \<and> (\<exists>paths. load_SignEvent (url_regex example_env)
           (JObj [(''source'', JObj [(''url'', JStr ''http://example.com/a.xpi'')]), (''checksum'', JNum 5)])
           = Inl (ValidationError paths)
         \<and> [''checksum''] \<in> set paths)
   \<and> (\<exists>paths. handle example_env
           (JObj [(''source'', JObj [(''url'', JStr ''http://example.com/a.xpi'')]), (''checksum'', JNum 5)])
           example_context = (Inl (ValidationError paths), [])
         \<and> [''checksum''] \<in> set paths)"
proof -
  have source: "map_of [(''source'', JObj [(''url'', JStr ''http://example.com/a.xpi'')]), (''checksum'', JNum 5)] ''source'' = None
      \<or> map_of [(''source'', JObj [(''url'', JStr ''http://example.com/a.xpi'')]), (''checksum'', JNum 5)] ''source'' = Some JNull
      \<or> (\<exists>fields. map_of [(''source'', JObj [(''url'', JStr ''http://example.com/a.xpi'')]), (''checksum'', JNum 5)] ''source''
            = Some (JObj fields))"
    by simp
  have present: "\<exists>v. map_of [(''source'', JObj [(''url'', JStr ''http://example.com/a.xpi'')]), (''checksum'', JNum 5)] ''checksum'' = Some v
      \<and> (\<forall>s. v \<noteq> JStr s)"
    by simp
  show ?thesis
    using checksum_field_validation [OF source, of example_env example_context]
          source present
    by blast
qed

text \<open>
  The claim as the specification states it fails on the empty checksum: the request
  passes validation, the package is downloaded, and the comparison of line 130 is what
  rejects the request.
\<close>

theorem empty_checksum_counterexample:
  "load_SignEvent (url_regex example_env) (url_event ''http://example.com/a.xpi'' [])
     = Inr \<lparr>ev_source = \<lparr>src_url = Some ''http://example.com/a.xpi'', src_bucket = None, src_key = None\<rparr>,
            ev_checksum = Some []\<rparr>
   \<and> handle example_env (url_event ''http://example.com/a.xpi'' []) example_context
     = (Inl (ChecksumMatchError ''http://example.com/a.xpi'' [] 
          ''ba7816bf8f01cfea414140de5dae2223b00361a396177a9cb410ff61f20015ad''), [HttpGet ''http://example.com/a.xpi''])"
  by (simp add: eval_defs abc_sha256_hexdigest [unfolded abc_def])

text \<open>
  A request without a checksum passes validation too: the field is not declared
  \<^verbatim>\<open>required\<close> (line 74). Line 130 then fails on \<^verbatim>\<open>event['checksum']\<close>, after the
  download.
\<close>

lemma missing_checksum_run:
  "handle example_env (JObj [(''source'', JObj [(''url'', JStr ''http://example.com/a.xpi'')])]) example_context
     = (Inl (KeyError ''checksum''), [HttpGet ''http://example.com/a.xpi''])"
  by (simp add: eval_defs)

section \<open>An error status from the signing service\<close>

lemma handle_post_in_trace:
  assumes "handle env event ctx = (r, t)" and "HttpPost u a j \<in> set t"
  obtains c :: sign_context and localfile filename t1 rs t2 where
    "sign_xpi env (autograph c) localfile (get_guid localfile) = (rs, t2)"
    and "HttpPost u a j \<in> set t2"
    and "\<forall>y \<in> set t1. is_retrieval y"
    and "\<forall>e. rs = Inl e \<longrightarrow> r = Inl e \<and> t = t1 @ t2"
    and "\<forall>output_file signed_contents. rs = Inr (output_file, signed_contents) \<longrightarrow>
           t = t1 @ t2 @ [S3Put (output_bucket c) filename signed_contents]"
proof (cases "load_SignEvent (url_regex env) event")
  case (Inl e)
  with assms show ?thesis by (simp add: handle_unfold)
next
  case ev: (Inr ev)
  show ?thesis
  proof (cases "load_Context ctx")
    case (Inl e)
    with assms ev show ?thesis by (simp add: handle_unfold)
  next
    case c: (Inr c)
    obtain res t1 where rx: "retrieve_xpi env ev = (res, t1)"
      by (cases "retrieve_xpi env ev")
    have t1: "\<forall>y \<in> set t1. is_retrieval y"
      using retrieve_xpi_trace_retrieval [of env ev] rx by simp
    then have not1: "HttpPost u a j \<notin> set t1"
      by auto
    show ?thesis
    proof (cases res)
      case (Inl e)
      with assms ev c rx not1 show ?thesis by (auto simp: handle_unfold)
    next
      case (Inr p)
      obtain localfile filename where p: "p = (localfile, filename)"
        by (cases p)
      obtain rs t2 where sx: "sign_xpi env (autograph c) localfile (get_guid localfile) = (rs, t2)"
        by (cases "sign_xpi env (autograph c) localfile (get_guid localfile)")
      have failure: "r = Inl e \<and> t = t1 @ t2" if "rs = Inl e" for e
        using that assms(1) ev c rx Inr p sx by (simp add: handle_unfold)
      have success: "t = t1 @ t2 @ [S3Put (output_bucket c) filename signed_contents]"
        if "rs = Inr (output_file, signed_contents)" for output_file signed_contents
        using that assms(1) ev c rx Inr p sx by (auto simp: handle_unfold split: sum.splits)
      have post: "HttpPost u a j \<in> set t2"
      proof (cases rs)
        case (Inl e)
        with failure assms(2) not1 show ?thesis by auto
      next
        case (Inr q)
        then obtain output_file signed_contents where "rs = Inr (output_file, signed_contents)"
          by (cases q) simp
        with success assms(2) not1 show ?thesis by auto
      qed
      show ?thesis
        using failure success by (intro that [OF sx post t1]) blast+
    qed
  qed
qed

text \<open>
  Claim C7, as the code has it. When the signing service answers the signing request
  with a status from 400 to 599, \<^verbatim>\<open>raise_for_status\<close> raises: the invocation fails with
  the \<open>HTTPError\<close> of that status, the signing request is its last call, and it calls
  neither \<^verbatim>\<open>make_signed\<close> nor the upload.
\<close>

theorem signing_error_status_halts:
  assumes "handle env event ctx = (r, t)"
    and "HttpPost u a j \<in> set t"
    and "http_post env u a j = Inr resp"
    and "400 \<le> post_status resp" and "post_status resp < 600"
  shows "r = Inl (HTTPError (post_status resp))
       \<and> last t = HttpPost u a j
       \<and> (\<forall>signature output_file sigpath. MakeSigned signature output_file sigpath \<notin> set t)
       \<and> (\<forall>bucket key body. S3Put bucket key body \<notin> set t)"
proof -
  from assms(1,2) obtain c :: sign_context and localfile filename t1 rs t2 where
    sx: "sign_xpi env (autograph c) localfile (get_guid localfile) = (rs, t2)"
    and mem: "HttpPost u a j \<in> set t2"
    and t1: "\<forall>y \<in> set t1. is_retrieval y"
    and failure: "\<forall>e. rs = Inl e \<longrightarrow> r = Inl e \<and> t = t1 @ t2"
    and success: "\<forall>output_file signed_contents. rs = Inr (output_file, signed_contents) \<longrightarrow>
           t = t1 @ t2 @ [S3Put (output_bucket c) filename signed_contents]"
    by (rule handle_post_in_trace)
  have failed: "response_signature env resp = Inl (HTTPError (post_status resp))"
    using assms(4,5) by (simp add: response_signature_def raise_for_status_def)
  from sx mem assms(3) failed
  have "rs = Inl (HTTPError (post_status resp)) \<and> t2 = [JarExtract, HttpPost u a j]"
    by (auto simp: sign_xpi_unfold Let_def split: sum.splits)
  with failure t1 show ?thesis
    by auto
qed

lemma error_status_run:
  "handle (sign_status_env 503)
     (url_event ''http://example.com/a.xpi''
        ''ba7816bf8f01cfea414140de5dae2223b00361a396177a9cb410ff61f20015ad'')
     example_context
   = (Inl (HTTPError 503),
      [HttpGet ''http://example.com/a.xpi'', JarExtract,
      HttpPost ''http://localhost:8000/sign/data''
        (''alice'', ''fs5wgcer9qj819kfptdlp8gm227ewxnzvsuj9ztycsx08hfhzu'')
        (JArr [JObj [(''input'', JStr ''AQID''), (''keyid'', JStr ''extensions-ecdsa''),
                     (''options'', JObj [(''id'', JStr ''some-fake-guid@example.com'')])]])])"
  by (simp add: eval_defs sign_status_env_def abc_sha256_hexdigest [unfolded abc_def])

theorem signing_error_status_halts_witness:
  "handle (sign_status_env 503)
     (url_event ''http://example.com/a.xpi''
        ''ba7816bf8f01cfea414140de5dae2223b00361a396177a9cb410ff61f20015ad'')
     example_context
   = (Inl (HTTPError 503),
      [HttpGet ''http://example.com/a.xpi'', JarExtract,
      HttpPost ''http://localhost:8000/sign/data''
        (''alice'', ''fs5wgcer9qj819kfptdlp8gm227ewxnzvsuj9ztycsx08hfhzu'')
        (JArr [JObj [(''input'', JStr ''AQID''), (''keyid'', JStr ''extensions-ecdsa''),
                     (''options'', JObj [(''id'', JStr ''some-fake-guid@example.com'')])]])])
   \<and> (HttpPost ''http://localhost:8000/sign/data''
        (''alice'', ''fs5wgcer9qj819kfptdlp8gm227ewxnzvsuj9ztycsx08hfhzu'')
        (JArr [JObj [(''input'', JStr ''AQID''), (''keyid'', JStr ''extensions-ecdsa''),
                     (''options'', JObj [(''id'', JStr ''some-fake-guid@example.com'')])]]))
       \<in> set [HttpGet ''http://example.com/a.xpi'', JarExtract,
      HttpPost ''http://localhost:8000/sign/data''
        (''alice'', ''fs5wgcer9qj819kfptdlp8gm227ewxnzvsuj9ztycsx08hfhzu'')
        (JArr [JObj [(''input'', JStr ''AQID''), (''keyid'', JStr ''extensions-ecdsa''),
                     (''options'', JObj [(''id'', JStr ''some-fake-guid@example.com'')])]])]
   \<and> http_post (sign_status_env 503)
        ''http://localhost:8000/sign/data''
        (''alice'', ''fs5wgcer9qj819kfptdlp8gm227ewxnzvsuj9ztycsx08hfhzu'')
        (JArr [JObj [(''input'', JStr ''AQID''), (''keyid'', JStr ''extensions-ecdsa''),
                     (''options'', JObj [(''id'', JStr ''some-fake-guid@example.com'')])]])
       = Inr \<lparr>post_status = 503, post_json = Inr (JArr [JObj [(''signature'', JStr ''BAUG'')]])\<rparr>
   \<and> 400 \<le> post_status \<lparr>post_status = 503, post_json = Inr (JArr [JObj [(''signature'', JStr ''BAUG'')]])\<rparr>
   \<and> post_status \<lparr>post_status = 503, post_json = Inr (JArr [JObj [(''signature'', JStr ''BAUG'')]])\<rparr> < 600
   \<and> ((Inl (HTTPError 503) :: error + upload_result) = Inl (HTTPError (post_status \<lparr>post_status = 503, post_json = Inr (JArr [JObj [(''signature'', JStr ''BAUG'')]])\<rparr>))
      \<and> last [HttpGet ''http://example.com/a.xpi'', JarExtract,
      HttpPost ''http://localhost:8000/sign/data''
        (''alice'', ''fs5wgcer9qj819kfptdlp8gm227ewxnzvsuj9ztycsx08hfhzu'')
        (JArr [JObj [(''input'', JStr ''AQID''), (''keyid'', JStr ''extensions-ecdsa''),
                     (''options'', JObj [(''id'', JStr ''some-fake-guid@example.com'')])]])]
          = (HttpPost ''http://localhost:8000/sign/data''
        (''alice'', ''fs5wgcer9qj819kfptdlp8gm227ewxnzvsuj9ztycsx08hfhzu'')
        (JArr [JObj [(''input'', JStr ''AQID''), (''keyid'', JStr ''extensions-ecdsa''),
                     (''options'', JObj [(''id'', JStr ''some-fake-guid@example.com'')])]]))
      \<and> (\<forall>signature output_file sigpath. MakeSigned signature output_file sigpath
            \<notin> set [HttpGet ''http://example.com/a.xpi'', JarExtract,
      HttpPost ''http://localhost:8000/sign/data''
        (''alice'', ''fs5wgcer9qj819kfptdlp8gm227ewxnzvsuj9ztycsx08hfhzu'')
        (JArr [JObj [(''input'', JStr ''AQID''), (''keyid'', JStr ''extensions-ecdsa''),
                     (''options'', JObj [(''id'', JStr ''some-fake-guid@example.com'')])]])])
      \<and> (\<forall>bucket key body. S3Put bucket key body
            \<notin> set [HttpGet ''http://example.com/a.xpi'', JarExtract,
      HttpPost ''http://localhost:8000/sign/data''
        (''alice'', ''fs5wgcer9qj819kfptdlp8gm227ewxnzvsuj9ztycsx08hfhzu'')
        (JArr [JObj [(''input'', JStr ''AQID''), (''keyid'', JStr ''extensions-ecdsa''),
                     (''options'', JObj [(''id'', JStr ''some-fake-guid@example.com'')])]])]))"
proof -
  have member: "(HttpPost ''http://localhost:8000/sign/data''
        (''alice'', ''fs5wgcer9qj819kfptdlp8gm227ewxnzvsuj9ztycsx08hfhzu'')
        (JArr [JObj [(''input'', JStr ''AQID''), (''keyid'', JStr ''extensions-ecdsa''),
                     (''options'', JObj [(''id'', JStr ''some-fake-guid@example.com'')])]]))
       \<in> set [HttpGet ''http://example.com/a.xpi'', JarExtract,
      HttpPost ''http://localhost:8000/sign/data''
        (''alice'', ''fs5wgcer9qj819kfptdlp8gm227ewxnzvsuj9ztycsx08hfhzu'')
        (JArr [JObj [(''input'', JStr ''AQID''), (''keyid'', JStr ''extensions-ecdsa''),
                     (''options'', JObj [(''id'', JStr ''some-fake-guid@example.com'')])]])]"
    by simp
  have answer: "http_post (sign_status_env 503)
        ''http://localhost:8000/sign/data''
        (''alice'', ''fs5wgcer9qj819kfptdlp8gm227ewxnzvsuj9ztycsx08hfhzu'')
        (JArr [JObj [(''input'', JStr ''AQID''), (''keyid'', JStr ''extensions-ecdsa''),
                     (''options'', JObj [(''id'', JStr ''some-fake-guid@example.com'')])]])
       = Inr \<lparr>post_status = 503, post_json = Inr (JArr [JObj [(''signature'', JStr ''BAUG'')]])\<rparr>"
    by (simp add: sign_status_env_def example_env_def)
  have lower: "400 \<le> post_status \<lparr>post_status = 503, post_json = Inr (JArr [JObj [(''signature'', JStr ''BAUG'')]])\<rparr>"
    by simp
  have upper: "post_status \<lparr>post_status = 503, post_json = Inr (JArr [JObj [(''signature'', JStr ''BAUG'')]])\<rparr> < 600"
    by simp
  show ?thesis
    by (rule conjI [OF error_status_run conjI [OF member conjI [OF answer conjI [OF lower
          conjI [OF upper
            signing_error_status_halts [OF error_status_run member answer lower upper]]]]]])
qed

text \<open>
  The claim as the specification states it fails on the status 300, which is not a 2xx
  status: \<^verbatim>\<open>raise_for_status\<close> does not raise, the body is read, and the signature is
  embedded and the signed file uploaded.
\<close>

theorem redirect_status_counterexample:
  "http_post (sign_status_env 300)
        ''http://localhost:8000/sign/data''
        (''alice'', ''fs5wgcer9qj819kfptdlp8gm227ewxnzvsuj9ztycsx08hfhzu'')
        (JArr [JObj [(''input'', JStr ''AQID''), (''keyid'', JStr ''extensions-ecdsa''),
                     (''options'', JObj [(''id'', JStr ''some-fake-guid@example.com'')])]])
       = Inr \<lparr>post_status = 300, post_json = Inr (JArr [JObj [(''signature'', JStr ''BAUG'')]])\<rparr>
   \<and> \<not> (200 \<le> post_status \<lparr>post_status = 300, post_json = Inr (JArr [JObj [(''signature'', JStr ''BAUG'')]])\<rparr>
         \<and> post_status \<lparr>post_status = 300, post_json = Inr (JArr [JObj [(''signature'', JStr ''BAUG'')]])\<rparr> < 300)
   \<and> handle (sign_status_env 300)
     (url_event ''http://example.com/a.xpi''
        ''ba7816bf8f01cfea414140de5dae2223b00361a396177a9cb410ff61f20015ad'')
     example_context
   = (Inr \<lparr>up_bucket = ''eglassercamp-addon-sign-xpi-output'', up_key = ''a.xpi''\<rparr>,
      [HttpGet ''http://example.com/a.xpi'', JarExtract,
      HttpPost ''http://localhost:8000/sign/data''
        (''alice'', ''fs5wgcer9qj819kfptdlp8gm227ewxnzvsuj9ztycsx08hfhzu'')
        (JArr [JObj [(''input'', JStr ''AQID''), (''keyid'', JStr ''extensions-ecdsa''),
                     (''options'', JObj [(''id'', JStr ''some-fake-guid@example.com'')])]]),
      MakeSigned [4, 5, 6] ''/tmp/tmpq8UHlz-signed'' ''mozilla.rsa'',
      S3Put ''eglassercamp-addon-sign-xpi-output'' ''a.xpi'' [0x61, 0x62, 0x63, 4, 5, 6]])"
  by (simp add: eval_defs sign_status_env_def abc_sha256_hexdigest [unfolded abc_def])

section \<open>The signing request\<close>

lemma uses_relative_netloc: "x \<in> set uses_relative \<Longrightarrow> x \<in> set uses_netloc"
  by (auto simp: uses_relative_def uses_netloc_def)

lemma urljoin_sign_data_authority:
  assumes "urlsplit base [] = Inr (scheme, netloc, path, query, fragment)"
    and "scheme = ''http'' \<or> scheme = ''https''"
  shows "urljoin_sign_data base = Inr (scheme @ ''://'' @ netloc @ ''/sign/data'')"
proof -
  have "urlsplit [] [] = Inr ([], [], [], [], [])"
    by (simp add: urlsplit_def find_char_def split_once_def Let_def)
  with assms have "base \<noteq> []" by auto
  moreover from assms(2) have "scheme \<in> set uses_relative" "scheme \<in> set uses_netloc" "scheme \<noteq> []"
    by (auto simp: uses_relative_def uses_netloc_def)
  ultimately show ?thesis
    using assms(1) by (simp add: urljoin_sign_data_def urlunsplit_def Let_def)
qed

text \<open>
  Claim C8, as the code has it. Once the archive library has given the payload, and for
  a service URL with the scheme \<^verbatim>\<open>http\<close> or \<^verbatim>\<open>https\<close>, \<^verbatim>\<open>sign_xpi\<close> makes exactly one
  signing request. It is authenticated with the Hawk identifier and key, its URL is the
  scheme and the authority of the service URL followed by \<^verbatim>\<open>/sign/data\<close> (what
  \<^verbatim>\<open>urljoin\<close> gives: the path, query and fragment of the service URL are dropped), and
  its body is the one-element array with the base64 of the payload as \<^verbatim>\<open>input\<close>, the
  configured \<^verbatim>\<open>keyid\<close> and the identity of \<^verbatim>\<open>get_guid\<close> under \<^verbatim>\<open>options.id\<close>. When
  \<^verbatim>\<open>sign_xpi\<close> returns, the answer had no status from 400 to 599, its body is an array
  whose first element is an object, and the signature given to \<^verbatim>\<open>make_signed\<close> is the
  base64 decoding of the \<^verbatim>\<open>signature\<close> of that object.
\<close>

theorem sign_xpi_request:
  assumes "jar_signature env localfile = Inr payload"
    and "urlsplit (server_url info) [] = Inr (scheme, netloc, path, query, fragment)"
    and "scheme = ''http'' \<or> scheme = ''https''"
    and "hawk_id info \<noteq> []" and "hawk_secret info \<noteq> []"
  shows "\<exists>r rest.
           sign_xpi env info localfile (get_guid localfile)
             = (r, JarExtract
                   # HttpPost (scheme @ ''://'' @ netloc @ ''/sign/data'')
                       (hawk_id info, hawk_secret info)
                       (JArr [JObj [(''input'', JStr (b64encode env payload)),
                                    (''keyid'', JStr (key_id info)),
                                    (''options'', JObj [(''id'', JStr ''some-fake-guid@example.com'')])]])
                   # rest)
         \<and> (\<forall>u a j. HttpPost u a j \<notin> set rest)
         \<and> (\<forall>output_file signed_contents. r = Inr (output_file, signed_contents) \<longrightarrow>
              (\<exists>resp d more s signature.
                  http_post env (scheme @ ''://'' @ netloc @ ''/sign/data'')
                    (hawk_id info, hawk_secret info)
                    (JArr [JObj [(''input'', JStr (b64encode env payload)),
                                 (''keyid'', JStr (key_id info)),
                                 (''options'', JObj [(''id'', JStr ''some-fake-guid@example.com'')])]])
                    = Inr resp
                \<and> (post_status resp < 400 \<or> 600 \<le> post_status resp)
                \<and> post_json resp = Inr (JArr (JObj d # more))
                \<and> map_of d ''signature'' = Some (JStr s)
                \<and> b64decode env s = Inr signature
                \<and> rest = [MakeSigned signature output_file ''mozilla.rsa'']))"
  using assms(1,4,5) urljoin_sign_data_authority [OF assms(2,3)]
  by (auto simp: sign_xpi_unfold HawkAuth_def Let_def get_guid_def sign_request_body_def response_signature_def
        json_first_def json_getitem_def b64decode_json_def raise_for_status_def
        split: sum.splits json.splits list.splits option.splits if_splits)

theorem sign_xpi_request_witness:
  "jar_signature example_env abc = Inr [1, 2, 3]
   \<and> urlsplit (server_url example_autograph) [] = Inr (''http'', ''localhost:8000'', ''/'', [], [])
   \<and> (''http'' = ''http'' \<or> ''http'' = ''https'')
   \<and> hawk_id example_autograph \<noteq> []
   \<and> hawk_secret example_autograph \<noteq> []
   \<and> (\<exists>r rest.
           sign_xpi example_env example_autograph abc (get_guid abc)
             = (r, JarExtract
                   # HttpPost (''http'' @ ''://'' @ ''localhost:8000'' @ ''/sign/data'')
                       (hawk_id example_autograph, hawk_secret example_autograph)
                       (JArr [JObj [(''input'', JStr (b64encode example_env [1, 2, 3])),
                                    (''keyid'', JStr (key_id example_autograph)),
                                    (''options'', JObj [(''id'', JStr ''some-fake-guid@example.com'')])]])
                   # rest)
         \<and> (\<forall>u a j. HttpPost u a j \<notin> set rest)
         \<and> (\<forall>output_file signed_contents. r = Inr (output_file, signed_contents) \<longrightarrow>
              (\<exists>resp d more s signature.
                  http_post example_env (''http'' @ ''://'' @ ''localhost:8000'' @ ''/sign/data'')
                    (hawk_id example_autograph, hawk_secret example_autograph)
                    (JArr [JObj [(''input'', JStr (b64encode example_env [1, 2, 3])),
                                 (''keyid'', JStr (key_id example_autograph)),
                                 (''options'', JObj [(''id'', JStr ''some-fake-guid@example.com'')])]])
                    = Inr resp
                \<and> (post_status resp < 400 \<or> 600 \<le> post_status resp)
                \<and> post_json resp = Inr (JArr (JObj d # more))
                \<and> map_of d ''signature'' = Some (JStr s)
                \<and> b64decode example_env s = Inr signature
                \<and> rest = [MakeSigned signature output_file ''mozilla.rsa''])))"
proof -
  have payload: "jar_signature example_env abc = Inr [1, 2, 3]"
    by (simp add: example_env_def)
  have split: "urlsplit (server_url example_autograph) []
      = Inr (''http'', ''localhost:8000'', ''/'', [], [])"
    by (simp add: example_autograph_def urlsplit_def find_char_def splitnetloc_def
          split_once_def lower_def lower_char_def Let_def)
  have scheme: "''http'' = ''http'' \<or> ''http'' = ''https''"
    by simp
  have ident: "hawk_id example_autograph \<noteq> []"
    by (simp add: example_autograph_def)
  have secret: "hawk_secret example_autograph \<noteq> []"
    by (simp add: example_autograph_def)
  show ?thesis
    by (rule conjI [OF payload conjI [OF split conjI [OF scheme conjI [OF ident conjI [OF secret
          sign_xpi_request [OF payload split scheme ident secret]]]]]])
qed

text \<open>
  The claim as the specification states it fails on a service URL with a path: the
  request goes to the root of the authority, not to the service URL followed by
  \<^verbatim>\<open>/sign/data\<close>.
\<close>

theorem sign_url_counterexample:
  "sign_xpi example_env (example_autograph\<lparr>server_url := ''http://autograph.example.com/api''\<rparr>)
       abc (get_guid abc)
     = (Inr (''/tmp/tmpq8UHlz-signed'', [0x61, 0x62, 0x63, 4, 5, 6]),
        [JarExtract,
         HttpPost ''http://autograph.example.com/sign/data''
           (''alice'', ''fs5wgcer9qj819kfptdlp8gm227ewxnzvsuj9ztycsx08hfhzu'')
           (JArr [JObj [(''input'', JStr ''AQID''), (''keyid'', JStr ''extensions-ecdsa''),
                        (''options'', JObj [(''id'', JStr ''some-fake-guid@example.com'')])]]),
         MakeSigned [4, 5, 6] ''/tmp/tmpq8UHlz-signed'' ''mozilla.rsa''])
   \<and> spec_sign_url ''http://autograph.example.com/api''
       = ''http://autograph.example.com/api/sign/data''
   \<and> ''http://autograph.example.com/sign/data''
       \<noteq> spec_sign_url ''http://autograph.example.com/api''"
  by (simp add: eval_defs example_autograph_def abc_def spec_sign_url_def)

text \<open>
  With an empty Hawk identifier or key, which the schema of the context accepts, the
  constructor of line 173 raises and no request is made.
\<close>

lemma empty_hawk_credentials:
  assumes "jar_signature env localfile = Inr payload"
    and "hawk_id info = [] \<or> hawk_secret info = []"
  shows "sign_xpi env info localfile guid = (Inl AttributeError, [JarExtract])"
  using assms by (auto simp: sign_xpi_unfold HawkAuth_def)

lemma empty_hawk_id_run:
  "sign_xpi example_env (example_autograph\<lparr>hawk_id := []\<rparr>) abc (get_guid abc)
     = (Inl AttributeError, [JarExtract])"
  by (simp add: eval_defs example_autograph_def abc_def)

section \<open>The exception of a mismatch on a stored object\<close>

text \<open>
  Claim C6 fails on the code. When the package comes from the object store and the
  checksum differs from the digest, line 131 reads the variable \<^verbatim>\<open>url\<close>, which only the
  URL branch assigns (line 114), and the handler raises \<open>UnboundLocalError\<close> instead of
  \<open>ChecksumMatchError\<close>. Here the checksum is the digest of the package with its first
  digit changed.
\<close>

theorem stored_object_mismatch_run:
  "handle example_env
     (s3_event ''addons'' ''dir/a.xpi''
        ''ca7816bf8f01cfea414140de5dae2223b00361a396177a9cb410ff61f20015ad'')
     example_context
   = (Inl (UnboundLocalError ''url''), [S3Download ''addons'' ''dir/a.xpi''])"
  by (simp add: eval_defs abc_def abc_sha256_hexdigest [unfolded abc_def])

text \<open>The same for every stored object and every checksum that differs from the digest.\<close>

lemma stored_object_mismatch:
  assumes "\<not> truthy (src_url (ev_source ev))"
    and "retrieve_source env ev = (Inr (url, contents, filename), t)"
    and "ev_checksum ev = Some c" and "c \<noteq> compute_checksum contents"
  shows "retrieve_xpi env ev = (Inl (UnboundLocalError ''url''), t)"
proof -
  from assms(1,2) have "url = None"
    by (auto simp: retrieve_source_def Let_def io_defs io_bind_Inr)
  with assms show ?thesis
    by (auto simp: retrieve_xpi_unfold)
qed

section \<open>The derived file name\<close>

text \<open>
  Claim C9 fails on the code. A \<^verbatim>\<open>Content-Disposition\<close> header with a parameter that has
  no \<^verbatim>\<open>=\<close>, here \<^verbatim>\<open>attachment;\<close>, makes line 148 raise \<open>ValueError\<close> where the
  docstring of \<^verbatim>\<open>extract_response_filename\<close> promises \<^verbatim>\<open>None\<close> and the claim the last
  segment of the URL; and a key without a slash, here \<^verbatim>\<open>bar.xpi\<close>, makes line 125 raise
  \<open>ValueError\<close> before the download where the claim promises the key's last segment.
\<close>

theorem filename_derivation_runs:
  "handle (header_env ''attachment;'')
     (url_event ''http://example.com/foo/bar.xpi''
        ''ba7816bf8f01cfea414140de5dae2223b00361a396177a9cb410ff61f20015ad'')
     example_context
   = (Inl ValueError, [HttpGet ''http://example.com/foo/bar.xpi''])
   \<and> handle example_env
     (s3_event ''addons'' ''bar.xpi''
        ''ba7816bf8f01cfea414140de5dae2223b00361a396177a9cb410ff61f20015ad'')
     example_context
   = (Inl ValueError, [])"
  by (simp add: eval_defs header_env_def)

text \<open>
  The examples of the claim hold: a quoted file name in the header, the last segment of
  the URL without a header, the last segment of a key with a slash.
\<close>

lemma filename_examples:
  \<open>fst (retrieve_source (header_env ''attachment; filename="pkg.xpi"'')
     \<lparr>ev_source = \<lparr>src_url = Some ''http://example.com/foo/bar.xpi'', src_bucket = None, src_key = None\<rparr>,
      ev_checksum = None\<rparr>)
     = Inr (Some ''http://example.com/foo/bar.xpi'', [0x61, 0x62, 0x63], ''pkg.xpi'')\<close>
  \<open>fst (retrieve_source example_env
     \<lparr>ev_source = \<lparr>src_url = Some ''http://example.com/foo/bar.xpi'', src_bucket = None, src_key = None\<rparr>,
      ev_checksum = None\<rparr>)
     = Inr (Some ''http://example.com/foo/bar.xpi'', [0x61, 0x62, 0x63], ''bar.xpi'')\<close>
  \<open>fst (retrieve_source example_env
     \<lparr>ev_source = \<lparr>src_url = None, src_bucket = Some ''addons'', src_key = Some ''dir/a.xpi''\<rparr>,
      ev_checksum = None\<rparr>)
     = Inr (None, [0x61, 0x62, 0x63], ''a.xpi'')\<close>
  by (simp_all add: eval_defs header_env_def abc_def)

section \<open>Retrieval from a URL when a bucket and a key are given too\<close>

text \<open>
  Claim C10. A source that passes validation with a URL, a bucket and a key is retrieved
  from the URL: replacing the bucket and the key by anything (or removing them) changes
  neither the result of \<^verbatim>\<open>retrieve_xpi\<close>, that is the bytes, the file name or the
  exception, nor its calls, and the only call is the download of the URL.
\<close>

theorem url_source_ignores_bucket_and_key:
  assumes "load_SourceInfo re (JObj d) = ([], Some src)"
    and "map_of d ''url'' = Some (JStr url)"
    and "map_of d ''bucket'' = Some (JStr b)" and "map_of d ''key'' = Some (JStr k)"
    and "b \<noteq> []" and "k \<noteq> []"
  shows "retrieve_xpi env \<lparr>ev_source = src\<lparr>src_bucket := b', src_key := k'\<rparr>, ev_checksum = c\<rparr>
           = retrieve_xpi env \<lparr>ev_source = src, ev_checksum = c\<rparr>
         \<and> snd (retrieve_xpi env \<lparr>ev_source = src, ev_checksum = c\<rparr>) = [HttpGet url]"
proof -
  from assms(1,2) have u: "src_url src = Some url" "url \<noteq> []"
    using load_SourceInfo_ok by blast+
  have "retrieve_source env \<lparr>ev_source = src\<lparr>src_bucket := b', src_key := k'\<rparr>, ev_checksum = c\<rparr>
          = retrieve_source env \<lparr>ev_source = src, ev_checksum = c\<rparr>"
    using u by (simp add: retrieve_source_def truthy_def getitem_def)
  then have "retrieve_xpi env \<lparr>ev_source = src\<lparr>src_bucket := b', src_key := k'\<rparr>, ev_checksum = c\<rparr>
          = retrieve_xpi env \<lparr>ev_source = src, ev_checksum = c\<rparr>"
    by (simp add: retrieve_xpi_def)
  moreover have "snd (retrieve_xpi env \<lparr>ev_source = src, ev_checksum = c\<rparr>) = [HttpGet url]"
    using u by (simp add: retrieve_xpi_trace retrieve_source_url_trace)
  ultimately show ?thesis by simp
qed

theorem url_source_ignores_bucket_and_key_witness:
  "load_SourceInfo example_url_regex
       (JObj [(''url'', JStr ''http://example.com/a.xpi''), (''bucket'', JStr ''addons''),
              (''key'', JStr ''other/b.xpi'')])
     = ([], Some \<lparr>src_url = Some ''http://example.com/a.xpi'', src_bucket = Some ''addons'',
                   src_key = Some ''other/b.xpi''\<rparr>)
   \<and> (retrieve_xpi example_env
        \<lparr>ev_source = \<lparr>src_url = Some ''http://example.com/a.xpi'', src_bucket = Some ''addons'',
                       src_key = Some ''other/b.xpi''\<rparr>
                     \<lparr>src_bucket := None, src_key := None\<rparr>,
         ev_checksum = Some ''00''\<rparr>
      = retrieve_xpi example_env
        \<lparr>ev_source = \<lparr>src_url = Some ''http://example.com/a.xpi'', src_bucket = Some ''addons'',
                       src_key = Some ''other/b.xpi''\<rparr>,
         ev_checksum = Some ''00''\<rparr>
      \<and> snd (retrieve_xpi example_env
        \<lparr>ev_source = \<lparr>src_url = Some ''http://example.com/a.xpi'', src_bucket = Some ''addons'',
                       src_key = Some ''other/b.xpi''\<rparr>,
         ev_checksum = Some ''00''\<rparr>) = [HttpGet ''http://example.com/a.xpi''])"
proof -
  have loaded: "load_SourceInfo example_url_regex
       (JObj [(''url'', JStr ''http://example.com/a.xpi''), (''bucket'', JStr ''addons''),
              (''key'', JStr ''other/b.xpi'')])
     = ([], Some \<lparr>src_url = Some ''http://example.com/a.xpi'', src_bucket = Some ''addons'',
                   src_key = Some ''other/b.xpi''\<rparr>)"
    by (simp add: load_SourceInfo_def URL_field_def String_field_def example_url_regex_def
          verify_either_url_or_s3_info_def truthy_def)
  show ?thesis
    by (rule conjI [OF loaded])
       (rule url_source_ignores_bucket_and_key
          [OF loaded, of "''http://example.com/a.xpi''" "''addons''" "''other/b.xpi''"],
        simp_all)
qed

end
